theory Spec2Isabelle
  imports Complex_Main "HOL-Library.List_Lexorder" "HOL-Library.Sublist"
begin

section \<open>Python strings\<close>

text \<open>
  A Python \<open>str\<close> is a sequence of Unicode code points, and \<open>len\<close>, \<open>strip\<close>,
  \<open>replace\<close> and the comparison used by \<open>sorted\<close> all work on code points. A string
  is therefore a list of code points; \<open>ascii\<close> writes an ASCII literal.
\<close>

type_synonym pystr = "nat list"

definition ascii :: "string \<Rightarrow> pystr" where
  "ascii s = map of_char s"

text \<open>
  \<open>str.isspace\<close> of one code point, as \<open>str.strip()\<close> with no argument uses it: the
  code points that CPython's Unicode database marks as whitespace.
\<close>

definition isspace :: "nat \<Rightarrow> bool" where
  "isspace c \<longleftrightarrow>
     (9 \<le> c \<and> c \<le> 13) \<or> (28 \<le> c \<and> c \<le> 32) \<or> c = 133 \<or> c = 160 \<or> c = 5760 \<or>
     (8192 \<le> c \<and> c \<le> 8202) \<or> c = 8232 \<or> c = 8233 \<or> c = 8239 \<or> c = 8287 \<or> c = 12288"

definition strip :: "pystr \<Rightarrow> pystr" where
  "strip s = rev (dropWhile isspace (rev (dropWhile isspace s)))"

text \<open>
  \<open>str.lower\<close> on the ASCII letters. Code points beyond ASCII are left as they are:
  lower-casing them never produces one of the characters of the suffix \<open>.pdf\<close>,
  the only thing the program looks for in a lower-cased string.
\<close>

definition lower_cp :: "nat \<Rightarrow> nat" where
  "lower_cp c = (if 65 \<le> c \<and> c \<le> 90 then c + 32 else c)"

definition lower :: "pystr \<Rightarrow> pystr" where
  "lower s = map lower_cp s"

definition endswith :: "pystr \<Rightarrow> pystr \<Rightarrow> bool" where
  "endswith s suf \<longleftrightarrow> suffix suf s"

text \<open>
  \<open>str.replace(old, new)\<close>: the occurrences of \<open>old\<close> are replaced from the left,
  without overlap. For an empty \<open>old\<close> Python puts \<open>new\<close> before every character
  and at the end.
\<close>

function replace_from :: "pystr \<Rightarrow> pystr \<Rightarrow> pystr \<Rightarrow> pystr" where
  "replace_from old new [] = []"
| "replace_from old new (c # cs) =
     (if old \<noteq> [] \<and> prefix old (c # cs)
      then new @ replace_from old new (drop (length old) (c # cs))
      else c # replace_from old new cs)"
  by pat_completeness auto
termination
  by (relation "measure (\<lambda>(old, new, s). length s)") auto

definition replace :: "pystr \<Rightarrow> pystr \<Rightarrow> pystr \<Rightarrow> pystr" where
  "replace s old new =
     (if old = [] then new @ concat (map (\<lambda>c. c # new) s) else replace_from old new s)"

text \<open>\<open>os.path.basename\<close> on a POSIX path: what follows the last \<open>/\<close>.\<close>

definition basename :: "pystr \<Rightarrow> pystr" where
  "basename p = rev (takeWhile (\<lambda>c. c \<noteq> 47) (rev p))"

section \<open>Exceptions\<close>

text \<open>
  The instances of Python's \<open>Exception\<close> that the program can meet, by what its
  handlers tell apart: \<open>_load_faiss\<close> catches \<open>TypeError\<close>, the other handlers catch
  every \<open>Exception\<close>. The text is \<open>str(e)\<close>.
\<close>

datatype exn = TypeError pystr | OtherException pystr

fun str_exn :: "exn \<Rightarrow> pystr" where
  "str_exn (TypeError m) = m"
| "str_exn (OtherException m) = m"

fun is_TypeError :: "exn \<Rightarrow> bool" where
  "is_TypeError (TypeError m) = True"
| "is_TypeError (OtherException m) = False"

section \<open>Documents and the objects of the libraries\<close>

text \<open>
  A langchain \<open>Document\<close> with the two metadata keys the program writes,
  \<open>source\<close> and \<open>page\<close>.
\<close>

record document =
  page_content :: pystr
  source :: pystr
  page :: nat

text \<open>\<open>OpenAIEmbeddings(model=..., api_key=...)\<close>.\<close>

record embeddings =
  emb_model :: pystr
  emb_api_key :: pystr

text \<open>The content of \<open>metadata.json\<close>.\<close>

record index_metadata =
  built_at :: pystr
  pdf_files_written :: "pystr list"

text \<open>
  The directory \<open>VECTORSTORE_DIR\<close>: the index that \<open>save_local\<close> wrote there, if any,
  and \<open>metadata.json\<close>, if any. The type \<open>'v\<close> is the FAISS index object.
\<close>

record 'v vectorstore_dir =
  index_files :: "'v option"
  metadata_json :: "index_metadata option"

text \<open>
  The chain that \<open>make_chain\<close> builds: the chat model, the retriever over the index
  with \<open>k = 3\<close>, and a \<open>ConversationBufferMemory\<close>, which starts empty.
\<close>

record 'v chain =
  llm_model :: pystr
  llm_temperature :: real
  llm_api_key :: pystr
  retriever_vectorstore :: 'v
  retriever_k :: nat
  memory :: "(pystr \<times> pystr) list"

text \<open>What the program asks of the world outside it, in the order it asks.\<close>

datatype call =
    Listdir
  | PdfReader pystr
  | LoadLocal bool
  | FromDocuments "document list"
  | Makedirs
  | SaveLocal
  | WriteMetadata
  | Rmtree
  | ChainCall pystr
  | St_warning pystr
  | St_error pystr
  | St_success pystr

section \<open>The text splitter of the library\<close>

text \<open>
  \<open>split_docs\<close> uses \<open>RecursiveCharacterTextSplitter\<close> of the langchain library with
  \<open>chunk_size = 1000\<close> and \<open>chunk_overlap = 200\<close> and nothing else set: the default
  separators, \<open>keep_separator = True\<close>, \<open>strip_whitespace = True\<close> and \<open>len\<close> as the
  length of a text. The code of the splitter is the library's, not the program's; the
  definitions below follow the library's methods \<open>_split_text_with_regex\<close>,
  \<open>_join_docs\<close>, \<open>_merge_splits\<close>, \<open>_split_text\<close> and \<open>split_documents\<close>. Sizes and
  totals are Python integers.
\<close>

text \<open>
  \<open>re.search(re.escape(sep), text)\<close>: the separator occurs in the text.
\<close>

fun contains :: "pystr \<Rightarrow> pystr \<Rightarrow> bool" where
  "contains sep [] = (sep = [])"
| "contains sep (c # cs) = (prefix sep (c # cs) \<or> contains sep cs)"

text \<open>
  \<open>_split_text_with_regex\<close> with \<open>keep_separator = True\<close>: the text is cut before every
  occurrence of the separator, found from the left without overlap, so that each
  piece but the first starts with the separator; with the empty separator the pieces
  are the characters; empty pieces are dropped. \<open>split_on sep cur text\<close> reads the text
  with \<open>cur\<close> the piece being built.
\<close>

function split_on :: "pystr \<Rightarrow> pystr \<Rightarrow> pystr \<Rightarrow> pystr list" where
  "split_on sep cur [] = [cur]"
| "split_on sep cur (c # cs) =
     (if sep \<noteq> [] \<and> prefix sep (c # cs)
      then cur # split_on sep sep (drop (length sep) (c # cs))
      else split_on sep (cur @ [c]) cs)"
  by pat_completeness auto
termination
  by (relation "measure (\<lambda>(sep, cur, t). length t)") auto

definition split_text_with_regex :: "pystr \<Rightarrow> pystr \<Rightarrow> pystr list" where
  "split_text_with_regex text separator =
     filter (\<lambda>s. s \<noteq> [])
       (if separator \<noteq> [] then split_on separator [] text else map (\<lambda>c. [c]) text)"

text \<open>
  \<open>separator.join(docs)\<close>, and \<open>_join_docs\<close>, which strips the joined text and gives
  \<open>None\<close> when nothing is left.
\<close>

fun join :: "pystr \<Rightarrow> pystr list \<Rightarrow> pystr" where
  "join sep [] = []"
| "join sep [x] = x"
| "join sep (x # y # xs) = x @ sep @ join sep (y # xs)"


definition join_docs :: "pystr list \<Rightarrow> pystr \<Rightarrow> pystr option" where
  "join_docs docs separator =
     (let text = strip (join separator docs) in if text = [] then None else Some text)"

text \<open>
  The inner \<open>while\<close> loop of \<open>_merge_splits\<close>: pieces are dropped from the front of
  \<open>current_doc\<close> while the total is above the overlap, or adding the next piece would
  still pass the chunk size and the total is positive. The total is the length of
  what \<open>current_doc\<close> holds, so the list is empty only when the loop has ended.
\<close>

fun pop_current :: "int \<Rightarrow> int \<Rightarrow> int \<Rightarrow> int \<Rightarrow> pystr list \<Rightarrow> int \<Rightarrow> pystr list \<times> int" where
  "pop_current chunk_size chunk_overlap separator_len len [] tot = ([], tot)"
| "pop_current chunk_size chunk_overlap separator_len len (c # cur) tot =
     (if tot > chunk_overlap \<or>
         (tot + len + separator_len > chunk_size \<and> tot > 0)
      then pop_current chunk_size chunk_overlap separator_len len cur
             (tot - (int (length c) + (if length (c # cur) > 1 then separator_len else 0)))
      else (c # cur, tot))"

text \<open>
  \<open>_merge_splits\<close>: the pieces are collected in \<open>current_doc\<close>; when the next piece would
  pass the chunk size the collected pieces are joined into a chunk, and pieces are
  dropped from the front as above before the next piece is added.
\<close>

definition append_doc :: "pystr list \<Rightarrow> pystr list \<Rightarrow> pystr \<Rightarrow> pystr list" where
  "append_doc docs current_doc separator =
     (case join_docs current_doc separator of None \<Rightarrow> docs | Some doc \<Rightarrow> docs @ [doc])"

fun merge_loop :: "int \<Rightarrow> int \<Rightarrow> pystr \<Rightarrow> pystr list \<Rightarrow> pystr list \<Rightarrow> pystr list \<Rightarrow> int \<Rightarrow> pystr list" where
  "merge_loop chunk_size chunk_overlap separator [] docs current_doc tot =
     append_doc docs current_doc separator"
| "merge_loop chunk_size chunk_overlap separator (d # ds) docs current_doc tot =
     (let len = int (length d);
          separator_len = int (length separator)
      in if tot + len + (if current_doc \<noteq> [] then separator_len else 0) > chunk_size
         then
           (if current_doc \<noteq> []
            then
              (case pop_current chunk_size chunk_overlap separator_len len current_doc tot of
                 (cur, t) \<Rightarrow>
                   merge_loop chunk_size chunk_overlap separator ds
                     (append_doc docs current_doc separator)
                     (cur @ [d])
                     (t + len + (if length (cur @ [d]) > 1 then separator_len else 0)))
            else
              merge_loop chunk_size chunk_overlap separator ds docs (current_doc @ [d])
                (tot + len + (if length (current_doc @ [d]) > 1 then separator_len else 0)))
         else
           merge_loop chunk_size chunk_overlap separator ds docs (current_doc @ [d])
             (tot + len + (if length (current_doc @ [d]) > 1 then separator_len else 0)))"

definition merge_splits :: "int \<Rightarrow> int \<Rightarrow> pystr list \<Rightarrow> pystr \<Rightarrow> pystr list" where
  "merge_splits chunk_size chunk_overlap splits separator =
     merge_loop chunk_size chunk_overlap separator splits [] [] 0"

text \<open>
  The choice of the separator in \<open>_split_text\<close>: the first separator that is empty or
  occurs in the text, with the separators after it for the pieces that are still too
  long; when none occurs, the last one, with nothing after it.
\<close>

fun pick_separator :: "pystr list \<Rightarrow> pystr \<Rightarrow> pystr \<times> pystr list" where
  "pick_separator [] text = ([], [])"
| "pick_separator [s] text = (s, [])"
| "pick_separator (s # s' # rest) text =
     (if s = [] then ([], [])
      else if contains s text then (s, s' # rest)
      else pick_separator (s' # rest) text)"

text \<open>
  The loop of \<open>_split_text\<close> over the pieces: pieces shorter than the chunk size are
  collected and merged; a piece that is not is split again with the remaining
  separators (\<open>deeper\<close>), or kept as it is when none remain.
\<close>

fun split_loop :: "int \<Rightarrow> int \<Rightarrow> (pystr \<Rightarrow> pystr list) option \<Rightarrow> pystr list \<Rightarrow> pystr list
    \<Rightarrow> pystr list \<Rightarrow> pystr list" where
  "split_loop chunk_size chunk_overlap deeper [] good_splits final_chunks =
     (if good_splits \<noteq> []
      then final_chunks @ merge_splits chunk_size chunk_overlap good_splits []
      else final_chunks)"
| "split_loop chunk_size chunk_overlap deeper (s # ss) good_splits final_chunks =
     (if int (length s) < chunk_size
      then split_loop chunk_size chunk_overlap deeper ss (good_splits @ [s]) final_chunks
      else
        (let merged = (if good_splits \<noteq> []
                       then final_chunks @ merge_splits chunk_size chunk_overlap good_splits []
                       else final_chunks)
         in case deeper of
              None \<Rightarrow> split_loop chunk_size chunk_overlap deeper ss [] (merged @ [s])
            | Some f \<Rightarrow> split_loop chunk_size chunk_overlap deeper ss [] (merged @ f s)))"

function split_text_rec :: "int \<Rightarrow> int \<Rightarrow> pystr list \<Rightarrow> pystr \<Rightarrow> pystr list" where
  "split_text_rec chunk_size chunk_overlap separators text =
     (case pick_separator separators text of
        (separator, new_separators) \<Rightarrow>
          split_loop chunk_size chunk_overlap
            (if new_separators = [] then None
             else Some (\<lambda>s. split_text_rec chunk_size chunk_overlap new_separators s))
            (split_text_with_regex text separator) [] [])"
  by pat_completeness auto
termination
proof (relation "measure (\<lambda>(cs, ov, seps, t). length seps)")
  have shorter: "pick_separator seps t = (sep, new) \<Longrightarrow> new \<noteq> [] \<Longrightarrow> length new < length seps"
    for seps t sep new
    by (induction seps t rule: pick_separator.induct) (auto split: if_splits)
  show "wf (measure (\<lambda>(cs, ov, seps, t). length seps))" by simp
  show "((cs, ov, new, s), cs, ov, seps, t) \<in> measure (\<lambda>(cs, ov, seps, t). length seps)"
    if "(sep, new) = pick_separator seps t" and "new \<noteq> []"
    for cs ov seps t sep new s
    using shorter[OF that(1)[symmetric] that(2)] by simp
qed

declare split_text_rec.simps [simp del]

text \<open>
  The separators of \<open>RecursiveCharacterTextSplitter\<close> when none are given: a blank
  line, a newline, a space, and the empty string.
\<close>

definition DEFAULT_SEPARATORS :: "pystr list" where
  "DEFAULT_SEPARATORS = [[10, 10], [10], [32], []]"

definition split_text :: "int \<Rightarrow> int \<Rightarrow> pystr \<Rightarrow> pystr list" where
  "split_text chunk_size chunk_overlap text =
     split_text_rec chunk_size chunk_overlap DEFAULT_SEPARATORS text"

text \<open>
  \<open>split_documents\<close>: every chunk of a document has a copy of its metadata.
\<close>

definition split_documents :: "int \<Rightarrow> int \<Rightarrow> document list \<Rightarrow> document list" where
  "split_documents chunk_size chunk_overlap documents =
     concat (map (\<lambda>doc. map (\<lambda>chunk. \<lparr>page_content = chunk, source = source doc, page = page doc\<rparr>)
                              (split_text chunk_size chunk_overlap (page_content doc)))
                 documents)"

section \<open>The world outside the session\<close>

text \<open>
  The environment, the file system and the libraries, as the program reads them:
  \<^item> \<open>env_OPENAI_API_KEY\<close>: the environment variable, \<open>None\<close> when unset;
  \<^item> \<open>listdir\<close>, \<open>isfile\<close>: the names in the working directory and \<open>os.path.isfile\<close>;
  \<^item> \<open>pdf_reader\<close>: \<open>PdfReader(pdf)\<close> raises, or gives the pages, and
    \<open>extract_text()\<close> of a page raises, or returns a string or \<open>None\<close>;
  \<^item> \<open>vectorstore\<close>: the directory \<open>VECTORSTORE_DIR\<close>, \<open>None\<close> when
    \<open>os.path.isdir\<close> is false;
  \<^item> \<open>load_local\<close>: \<open>FAISS.load_local\<close> on that directory, called with the keyword
    \<open>allow_dangerous_deserialization\<close> (\<open>True\<close>) or without it (\<open>False\<close>);
  \<^item> \<open>from_documents\<close>: \<open>FAISS.from_documents\<close>, which calls the embedding provider;
  \<^item> \<open>makedirs\<close>: \<open>os.makedirs(VECTORSTORE_DIR, exist_ok=True)\<close> where there is no such
    directory: it creates the directory, or raises (a file has the name, or the
    directory cannot be created);
  \<^item> \<open>save_local\<close>: \<open>save_local\<close> of an index into the directory: \<open>None\<close> when the
    index is saved, or the exception raised with what is left of the index files;
  \<^item> \<open>write_metadata\<close>: opening \<open>metadata.json\<close> and writing it: \<open>None\<close> when it is
    written, or the exception raised with what is left of the file;
  \<^item> \<open>rmtree\<close>: what \<open>shutil.rmtree(VECTORSTORE_DIR, ignore_errors=True)\<close> leaves of the
    directory: nothing, or a directory when the removal fails;
  \<^item> \<open>now_isoformat\<close>: \<open>datetime.now().isoformat(timespec="seconds")\<close>;
  \<^item> \<open>chain_call\<close>: calling the chain on a question; it raises or returns the result
    dictionary, and leaves the chain object in a new state;
  \<^item> \<open>calls\<close>: the calls made so far.
\<close>

record 'v world =
  env_OPENAI_API_KEY :: "pystr option"
  listdir :: "pystr list"
  isfile :: "pystr \<Rightarrow> bool"
  pdf_reader :: "pystr \<Rightarrow> exn + (exn + pystr option) list"
  vectorstore :: "'v vectorstore_dir option"
  load_local :: "bool \<Rightarrow> 'v vectorstore_dir \<Rightarrow> embeddings \<Rightarrow> exn + 'v"
  from_documents :: "document list \<Rightarrow> embeddings \<Rightarrow> exn + 'v"
  makedirs :: "exn option"
  save_local :: "'v \<Rightarrow> (exn \<times> 'v option) option"
  write_metadata :: "index_metadata \<Rightarrow> (exn \<times> index_metadata option) option"
  rmtree :: "'v vectorstore_dir \<Rightarrow> 'v vectorstore_dir option"
  now_isoformat :: pystr
  chain_call :: "'v chain \<Rightarrow> pystr \<Rightarrow> (exn + (string \<rightharpoonup> pystr)) \<times> 'v chain"
  calls :: "call list"

definition record_call :: "call \<Rightarrow> 'v world \<Rightarrow> 'v world" where
  "record_call c w = w\<lparr>calls := calls w @ [c]\<rparr>"

section \<open>Utilities\<close>

definition MODEL_NAME :: pystr where
  "MODEL_NAME = ascii ''gpt-4o-mini''"

definition TEMPERATURE :: real where
  "TEMPERATURE = 0"

text \<open>
  \<open>_load_faiss\<close>: the load with the keyword; on a \<open>TypeError\<close> the load without it.
  Any other exception, and any exception of the second load, goes to the caller.
\<close>

definition load_faiss :: "'v vectorstore_dir \<Rightarrow> embeddings \<Rightarrow> 'v world \<Rightarrow> (exn + 'v) \<times> 'v world" where
  "load_faiss path emb w =
     (let w1 = record_call (LoadLocal True) w in
      case load_local w True path emb of
        Inr vs \<Rightarrow> (Inr vs, w1)
      | Inl e \<Rightarrow>
          if is_TypeError e
          then (load_local w False path emb, record_call (LoadLocal False) w1)
          else (Inl e, w1))"

definition list_pdfs_in_cwd :: "'v world \<Rightarrow> pystr list \<times> 'v world" where
  "list_pdfs_in_cwd w =
     (filter (\<lambda>f. isfile w f \<and> endswith (lower f) (ascii ''.pdf'')) (sort (listdir w)),
      record_call Listdir w)"

text \<open>
  The inner loop of \<open>load_docs_from_files\<close>, over \<open>enumerate(reader.pages)\<close>: \<open>i\<close> is
  the index of the page, \<open>docs\<close> the list built so far. A page whose extraction raises
  ends the loop with the exception; the documents appended before it stay.
\<close>

fun load_pages :: "pystr \<Rightarrow> nat \<Rightarrow> (exn + pystr option) list \<Rightarrow> document list
    \<Rightarrow> exn option \<times> document list" where
  "load_pages pdf i [] docs = (None, docs)"
| "load_pages pdf i (Inl e # ps) docs = (Some e, docs)"
| "load_pages pdf i (Inr t # ps) docs =
     (let text = (case t of None \<Rightarrow> [] | Some x \<Rightarrow> if x = [] then [] else x) in
      load_pages pdf (i + 1) ps
        (if strip text \<noteq> []
         then docs @ [\<lparr>page_content = text, source = basename pdf, page = i + 1\<rparr>]
         else docs))"

definition could_not_read :: "pystr \<Rightarrow> exn \<Rightarrow> call" where
  "could_not_read pdf e = St_warning (ascii ''Could not read '' @ pdf @ ascii '': '' @ str_exn e)"

fun load_docs_loop :: "pystr list \<Rightarrow> 'v world \<Rightarrow> document list \<Rightarrow> document list \<times> 'v world" where
  "load_docs_loop [] w docs = (docs, w)"
| "load_docs_loop (pdf # pdfs) w docs =
     (let w1 = record_call (PdfReader pdf) w in
      case pdf_reader w pdf of
        Inl e \<Rightarrow> load_docs_loop pdfs (record_call (could_not_read pdf e) w1) docs
      | Inr pages \<Rightarrow>
          (case load_pages pdf 0 pages docs of
             (None, docs') \<Rightarrow> load_docs_loop pdfs w1 docs'
           | (Some e, docs') \<Rightarrow> load_docs_loop pdfs (record_call (could_not_read pdf e) w1) docs'))"

definition load_docs_from_files :: "pystr list \<Rightarrow> 'v world \<Rightarrow> document list \<times> 'v world" where
  "load_docs_from_files pdfs w = load_docs_loop pdfs w []"

definition split_docs :: "document list \<Rightarrow> document list" where
  "split_docs docs = split_documents 1000 200 docs"

text \<open>
  The last lines of \<open>build_or_load_vectorstore\<close>, which write the index: the directory is
  made, the index saved in it, and \<open>metadata.json\<close> written. Each step may raise, and
  then the steps after it are not run. The result is the outcome, what is at
  \<open>VECTORSTORE_DIR\<close> afterwards, and the calls made.
\<close>

definition save_index :: "'v world \<Rightarrow> 'v \<Rightarrow> pystr list
    \<Rightarrow> (exn + 'v option) \<times> 'v vectorstore_dir option \<times> call list" where
  "save_index w vs pdfs =
     (case makedirs w of
        Some e \<Rightarrow> (Inl e, vectorstore w, [Makedirs])
      | None \<Rightarrow>
          (case save_local w vs of
             Some (e, left) \<Rightarrow>
               (Inl e, Some \<lparr>index_files = left, metadata_json = None\<rparr>, [Makedirs, SaveLocal])
           | None \<Rightarrow>
               (let meta = \<lparr>built_at = now_isoformat w, pdf_files_written = pdfs\<rparr> in
                case write_metadata w meta of
                  Some (e, left) \<Rightarrow>
                    (Inl e, Some \<lparr>index_files = Some vs, metadata_json = left\<rparr>,
                     [Makedirs, SaveLocal, WriteMetadata])
                | None \<Rightarrow>
                    (Inr (Some vs), Some \<lparr>index_files = Some vs, metadata_json = Some meta\<rparr>,
                     [Makedirs, SaveLocal, WriteMetadata]))))"

text \<open>
  \<open>build_or_load_vectorstore\<close>. The result is the exception that leaves the function,
  or the value it returns: \<open>None\<close> or an index.
\<close>

definition OpenAIEmbeddings :: "pystr \<Rightarrow> pystr \<Rightarrow> embeddings" where
  "OpenAIEmbeddings model api_key = \<lparr>emb_model = model, emb_api_key = api_key\<rparr>"

definition build_or_load_vectorstore :: "pystr \<Rightarrow> 'v world \<Rightarrow> (exn + 'v option) \<times> 'v world" where
  "build_or_load_vectorstore api_key w =
     (let emb = OpenAIEmbeddings (ascii ''text-embedding-3-small'') api_key in
      case vectorstore w of
        Some d \<Rightarrow>
          (case load_faiss d emb w of
             (Inl e, w1) \<Rightarrow> (Inl e, w1)
           | (Inr vs, w1) \<Rightarrow> (Inr (Some vs), w1))
      | None \<Rightarrow>
          (case list_pdfs_in_cwd w of
             (pdfs, w1) \<Rightarrow>
               if pdfs = [] then (Inr None, w1)
               else
                 (case load_docs_from_files pdfs w1 of
                    (docs, w2) \<Rightarrow>
                      if docs = [] then (Inr None, w2)
                      else
                        (let chunks = split_docs docs;
                             w3 = record_call (FromDocuments chunks) w2
                         in case from_documents w2 chunks emb of
                              Inl e \<Rightarrow> (Inl e, w3)
                            | Inr vs \<Rightarrow>
                                (case save_index w3 vs pdfs of
                                   (r, d, cs) \<Rightarrow>
                                     (r, w3\<lparr>vectorstore := d, calls := calls w3 @ cs\<rparr>))))))"

definition make_chain :: "'v \<Rightarrow> pystr \<Rightarrow> 'v chain" where
  "make_chain vs api_key =
     \<lparr>llm_model = MODEL_NAME, llm_temperature = TEMPERATURE, llm_api_key = api_key,
      retriever_vectorstore = vs, retriever_k = 3, memory = []\<rparr>"

section \<open>The session\<close>

text \<open>
  \<open>st.session_state\<close>: the message log, the conversation chain (\<open>None\<close> until one is
  made), the status, the input key, and the key override of the settings form
  (\<open>None\<close> while the key is not in the session). The roles and the status are
  the ASCII constants of the program.
\<close>

record msg =
  role :: string
  content :: pystr

record 'v session =
  messages :: "msg list"
  conversation :: "'v chain option"
  rag_status :: string
  input_key :: nat
  OPENAI_API_KEY_OVERRIDE :: "pystr option"

definition initial_session :: "'v session" where
  "initial_session =
     \<lparr>messages = [], conversation = None, rag_status = ''init'', input_key = 0,
      OPENAI_API_KEY_OVERRIDE = None\<rparr>"

text \<open>\<open>d.get(key, "")\<close> and \<open>a or b\<close> on strings.\<close>

definition get_or_empty :: "pystr option \<Rightarrow> pystr" where
  "get_or_empty v = (case v of None \<Rightarrow> [] | Some x \<Rightarrow> x)"

definition str_or :: "pystr \<Rightarrow> pystr \<Rightarrow> pystr" where
  "str_or a b = (if a \<noteq> [] then a else b)"

definition get_api_key :: "'v session \<Rightarrow> 'v world \<Rightarrow> pystr" where
  "get_api_key s w =
     (let key = str_or (get_or_empty (OPENAI_API_KEY_OVERRIDE s))
                       (get_or_empty (env_OPENAI_API_KEY w))
      in strip key)"

text \<open>
  \<open>ensure_conversation\<close>. The first component is the exception that leaves the
  function, if any: one raised inside \<open>build_or_load_vectorstore\<close>, which nothing here
  catches. A chain object is true in a condition, so \<open>if conversation\<close> asks whether
  there is one.
\<close>

definition ensure_conversation :: "'v session \<Rightarrow> 'v world \<Rightarrow> exn option \<times> 'v session \<times> 'v world" where
  "ensure_conversation s w =
     (if conversation s \<noteq> None then (None, s, w)
      else
        (let api_key = get_api_key s w in
         if api_key = [] then (None, s\<lparr>rag_status := ''missing_key''\<rparr>, w)
         else
           (case build_or_load_vectorstore api_key w of
              (Inl e, w1) \<Rightarrow> (Some e, s, w1)
            | (Inr None, w1) \<Rightarrow> (None, s\<lparr>rag_status := ''no_pdfs''\<rparr>, w1)
            | (Inr (Some vs), w1) \<Rightarrow>
                (None,
                 s\<lparr>conversation := Some (make_chain vs api_key), rag_status := ''ready''\<rparr>,
                 w1))))"

definition tidy_response :: "pystr \<Rightarrow> pystr" where
  "tidy_response text =
     (if text = [] then []
      else
        (let t1 = strip text;
             t2 = replace t1 [10, 45] [10, 10, 45];
             t3 = replace t2 (ascii ''** '') (ascii ''**'');
             t4 = replace t3 (ascii '' **'') (ascii ''**'')
         in t4))"

section \<open>The handlers\<close>

text \<open>The three guidance messages; each starts with the warning sign U+26A0 U+FE0F.\<close>

definition MSG_MISSING_KEY :: pystr where
  "MSG_MISSING_KEY =
     [9888, 65039] @ ascii '' RAG unavailable: Please set your OPENAI_API_KEY in the Settings tab.''"

definition MSG_NO_PDFS :: pystr where
  "MSG_NO_PDFS =
     [9888, 65039] @
     ascii '' RAG unavailable: Please add PDFs in the Knowledge Base tab and rebuild the index.''"

definition MSG_NOT_READY :: pystr where
  "MSG_NOT_READY =
     [9888, 65039] @ ascii '' RAG not ready. Please check Settings and Knowledge Base.''"

text \<open>
  The handler of the chat form, run with the value of the submit button and the text
  of the input. The first component says whether \<open>st.rerun()\<close> was reached. The chain
  is called with the question only; the call leaves the chain object, which the
  session still holds, in the state the library gives it.
\<close>

definition chat_submit :: "bool \<Rightarrow> pystr \<Rightarrow> 'v session \<Rightarrow> 'v world \<Rightarrow> bool \<times> 'v session \<times> 'v world" where
  "chat_submit submitted q s w =
     (if submitted \<and> strip q \<noteq> [] then
        (let s1 = s\<lparr>messages := messages s @ [\<lparr>role = ''user'', content = q\<rparr>]\<rparr>;
             convo = conversation s1;
             status = rag_status s1
         in case convo of
              Some c \<Rightarrow>
                (case chain_call w c q of
                   (r, c') \<Rightarrow>
                     (let answer =
                            (case r of
                               Inr result \<Rightarrow>
                                 (case result ''answer'' of
                                    Some a \<Rightarrow> a
                                  | None \<Rightarrow> ascii ''(no answer returned)'')
                             | Inl e \<Rightarrow> ascii ''(RAG error: '' @ str_exn e @ ascii '')'');
                          formatted = tidy_response answer
                      in (True,
                          s1\<lparr>conversation := Some c',
                             messages := messages s1 @ [\<lparr>role = ''assistant'', content = formatted\<rparr>]\<rparr>,
                          record_call (ChainCall q) w)))
            | None \<Rightarrow>
                (let answer =
                       (if status = ''missing_key'' then MSG_MISSING_KEY
                        else if status = ''no_pdfs'' then MSG_NO_PDFS
                        else MSG_NOT_READY);
                     formatted = tidy_response answer
                 in (True,
                     s1\<lparr>messages := messages s1 @ [\<lparr>role = ''assistant'', content = formatted\<rparr>]\<rparr>,
                     w)))
      else (False, s, w))"

text \<open>
  The button that rebuilds the knowledge base. The directory of the index is removed
  first; errors of the removal are ignored, so the directory may still be there.
\<close>

definition rebuild_knowledge_base :: "'v session \<Rightarrow> 'v world \<Rightarrow> exn option \<times> 'v session \<times> 'v world" where
  "rebuild_knowledge_base s w =
     (let api_key = get_api_key s w in
      if api_key = []
      then (None, s, record_call (St_error (ascii ''Set OPENAI_API_KEY in Settings first.'')) w)
      else
        (let w1 = (case vectorstore w of
                     Some d \<Rightarrow> record_call Rmtree (w\<lparr>vectorstore := rmtree w d\<rparr>)
                   | None \<Rightarrow> w)
         in case build_or_load_vectorstore api_key w1 of
              (Inl e, w2) \<Rightarrow> (Some e, s, w2)
            | (Inr (Some vs), w2) \<Rightarrow>
                (None,
                 s\<lparr>conversation := Some (make_chain vs api_key), rag_status := ''ready''\<rparr>,
                 record_call (St_success (ascii ''Knowledge base rebuilt.'')) w2)
            | (Inr None, w2) \<Rightarrow>
                (None, s,
                 record_call
                   (St_error (ascii ''No PDFs found or failed to build vectorstore.'')) w2)))"

text \<open>The button that clears the chat history.\<close>

definition clear_chat_history :: "'v session \<Rightarrow> 'v world \<Rightarrow> 'v session \<times> 'v world" where
  "clear_chat_history s w =
     (s\<lparr>messages := []\<rparr>, record_call (St_success (ascii ''Cleared.'')) w)"

text \<open>The text input of the settings form writes its value into the session.\<close>

definition set_api_key_override :: "pystr \<Rightarrow> 'v session \<Rightarrow> 'v session" where
  "set_api_key_override v s = s\<lparr>OPENAI_API_KEY_OVERRIDE := Some v\<rparr>"

text \<open>
  The states a session can be in: it starts as \<open>initial_session\<close>; each run of the
  script calls \<open>ensure_conversation\<close> and then the handler of the widget that was used;
  between runs the world outside (files, environment, providers) may change in any way.
\<close>

inductive reachable :: "'v session \<Rightarrow> 'v world \<Rightarrow> bool" where
  start: "reachable initial_session w"
| outside: "reachable s w \<Longrightarrow> reachable s w'"
| ensure: "reachable s w \<Longrightarrow> ensure_conversation s w = (e, s', w') \<Longrightarrow> reachable s' w'"
| submit: "reachable s w \<Longrightarrow> chat_submit b q s w = (r, s', w') \<Longrightarrow> reachable s' w'"
| rebuild: "reachable s w \<Longrightarrow> rebuild_knowledge_base s w = (e, s', w') \<Longrightarrow> reachable s' w'"
| clear: "reachable s w \<Longrightarrow> clear_chat_history s w = (s', w') \<Longrightarrow> reachable s' w'"
| settings: "reachable s w \<Longrightarrow> reachable (set_api_key_override v s) w"

section \<open>An example world\<close>

text \<open>
  A working directory with one PDF of two pages, the second one empty, and a file that
  is no PDF; no index directory; libraries and a file system that always answer. The
  index is the list of its chunks.
\<close>

definition example_world :: "document list world" where
  "example_world =
     \<lparr>env_OPENAI_API_KEY = Some (ascii ''sk-example''),
      listdir = [ascii ''soil.pdf'', ascii ''notes.txt''],
      isfile = (\<lambda>f. True),
      pdf_reader = (\<lambda>f. if f = ascii ''soil.pdf''
                         then Inr [Inr (Some (ascii ''Soil bearing capacity'')), Inr (Some [])]
                         else Inl (OtherException (ascii ''not a PDF''))),
      vectorstore = None,
      load_local = (\<lambda>kw d emb. case index_files d of
                                   Some vs \<Rightarrow> Inr vs
                                 | None \<Rightarrow> Inl (OtherException (ascii ''no index file''))),
      from_documents = (\<lambda>chunks emb. Inr chunks),
      makedirs = None,
      save_local = (\<lambda>vs. None),
      write_metadata = (\<lambda>meta. None),
      rmtree = (\<lambda>d. None),
      now_isoformat = ascii ''2025-01-01T00:00:00'',
      chain_call = (\<lambda>c q. (Inr [''answer'' \<mapsto> ascii ''Spread footings.''],
                              c\<lparr>memory := memory c @ [(q, ascii ''Spread footings.'')]\<rparr>)),
      calls = []\<rparr>"

text \<open>
  A session that is ready, over an empty index; a library whose \<open>load_local\<close> does not
  know the keyword; and a provider that cannot be reached.
\<close>

definition ready_session :: "document list session" where
  "ready_session =
     initial_session\<lparr>conversation := Some (make_chain [] (ascii ''sk-example'')),
                     rag_status := ''ready''\<rparr>"

definition old_load_local :: "bool \<Rightarrow> document list vectorstore_dir \<Rightarrow> embeddings \<Rightarrow> exn + document list" where
  "old_load_local kw d emb =
     (if kw then Inl (TypeError (ascii ''unexpected keyword argument''))
      else case index_files d of
             Some vs \<Rightarrow> Inr vs
           | None \<Rightarrow> Inl (OtherException (ascii ''no index file'')))"

definition failing_provider :: "document list chain \<Rightarrow> pystr \<Rightarrow> (exn + (string \<rightharpoonup> pystr)) \<times> document list chain" where
  "failing_provider c q = (Inl (OtherException (ascii ''Connection error.'')), c)"

text \<open>
  The first run of the script in the example world; and the session after the PDF
  files have then been removed from the working directory and the rebuild button
  pressed.
\<close>

definition first_run :: "exn option \<times> document list session \<times> document list world" where
  "first_run = ensure_conversation initial_session example_world"

definition rebuilt_without_pdfs :: "exn option \<times> document list session \<times> document list world" where
  "rebuilt_without_pdfs =
     rebuild_knowledge_base (fst (snd first_run)) ((snd (snd first_run))\<lparr>listdir := []\<rparr>)"

section \<open>The text splitter\<close>


















lemma example_one_chunk:
  "split_text 1000 200 (ascii ''Soil bearing capacity'') = [ascii ''Soil bearing capacity'']"
proof -
  have p: "pick_separator DEFAULT_SEPARATORS (ascii ''Soil bearing capacity'') = ([32], [[]])"
    by (simp add: DEFAULT_SEPARATORS_def ascii_def)
  have s: "split_text_with_regex (ascii ''Soil bearing capacity'') [32] =
      [ascii ''Soil'', ascii '' bearing'', ascii '' capacity'']"
    by (simp add: split_text_with_regex_def ascii_def)
  have a: "append_doc [] [ascii ''Soil'', ascii '' bearing'', ascii '' capacity''] [] =
      [ascii ''Soil bearing capacity'']"
    by (simp add: append_doc_def join_docs_def Let_def ascii_def strip_def isspace_def)
  have l: "length (ascii ''Soil'') = 4" "length (ascii '' bearing'') = 8"
          "length (ascii '' capacity'') = 9"
    by (simp_all add: ascii_def)
  have m: "merge_splits 1000 200 [ascii ''Soil'', ascii '' bearing'', ascii '' capacity''] [] =
      [ascii ''Soil bearing capacity'']"
    unfolding merge_splits_def by (simp add: l a Let_def)
  show ?thesis
    unfolding split_text_def
    by (subst split_text_rec.simps) (simp add: p s m l)
qed

lemma split_docs_soil:
  "split_docs [\<lparr>page_content = ascii ''Soil bearing capacity'', source = src, page = n\<rparr>] =
     [\<lparr>page_content = ascii ''Soil bearing capacity'', source = src, page = n\<rparr>]"
  by (simp add: split_docs_def split_documents_def example_one_chunk)

lemmas split_docs_soil_points = split_docs_soil [unfolded ascii_def, simplified]




section \<open>Strings and text extraction\<close>


lemma all_dropWhile_iff: "(\<forall>c\<in>set (dropWhile P s). P c) \<longleftrightarrow> (\<forall>c\<in>set s. P c)"
  by (induction s) auto

lemma strip_eq_Nil_iff: "strip s = [] \<longleftrightarrow> (\<forall>c\<in>set s. isspace c)"
  by (simp add: strip_def dropWhile_eq_Nil_conv all_dropWhile_iff)

lemma load_pages_docs:
  "snd (load_pages pdf i ps docs) =
     docs @ [\<lparr>page_content = t, source = basename pdf, page = k + 1\<rparr> .
              (k, t) \<leftarrow> enumerate i (map (\<lambda>p. get_or_empty (projr p)) (takeWhile (\<lambda>p. \<not> isl p) ps)),
              \<not> (\<forall>c\<in>set t. isspace c)]"
proof (induction pdf i ps docs rule: load_pages.induct)
  case (1 pdf i docs)
  then show ?case by simp
next
  case (2 pdf i e ps docs)
  then show ?case by simp
next
  case (3 pdf i t ps docs)
  then show ?case
    by (cases t) (simp_all add: get_or_empty_def strip_eq_Nil_iff)
qed

lemma load_docs_loop_docs:
  "fst (load_docs_loop pdfs w docs) =
     docs @ concat (map (\<lambda>pdf. case pdf_reader w pdf of
                Inl e \<Rightarrow> []
              | Inr pages \<Rightarrow>
                  [\<lparr>page_content = t, source = basename pdf, page = k + 1\<rparr> .
                    (k, t) \<leftarrow> enumerate 0 (map (\<lambda>p. get_or_empty (projr p)) (takeWhile (\<lambda>p. \<not> isl p) pages)),
                    \<not> (\<forall>c\<in>set t. isspace c)]) pdfs)"
proof (induction pdfs arbitrary: w docs)
  case Nil
  then show ?case by simp
next
  case (Cons pdf pdfs)
  show ?case
  proof (cases "pdf_reader w pdf")
    case (Inl e)
    then show ?thesis
      by (simp add: Cons.IH record_call_def)
  next
    case (Inr pages)
    obtain r docs' where lp: "load_pages pdf 0 pages docs = (r, docs')"
      by (cases "load_pages pdf 0 pages docs")
    have d: "docs' = snd (load_pages pdf 0 pages docs)" using lp by simp
    show ?thesis
      using Inr lp
      by (cases r) (simp_all add: Cons.IH record_call_def d load_pages_docs del: load_pages.simps)
  qed
qed

lemma load_docs_loop_world:
  "\<exists>cs. snd (load_docs_loop pdfs w docs) = w\<lparr>calls := calls w @ cs\<rparr>"
proof (induction pdfs arbitrary: w docs)
  case Nil
  have "w = w\<lparr>calls := calls w @ []\<rparr>" by simp
  then show ?case by (metis load_docs_loop.simps(1) snd_conv)
next
  case (Cons pdf pdfs)
  have step: "\<exists>cs. snd (load_docs_loop pdfs (w\<lparr>calls := calls w @ pre\<rparr>) d) = w\<lparr>calls := calls w @ cs\<rparr>" for pre d
  proof -
    obtain cs where "snd (load_docs_loop pdfs (w\<lparr>calls := calls w @ pre\<rparr>) d) =
        (w\<lparr>calls := calls w @ pre\<rparr>)\<lparr>calls := calls (w\<lparr>calls := calls w @ pre\<rparr>) @ cs\<rparr>"
      using Cons.IH by blast
    then have "snd (load_docs_loop pdfs (w\<lparr>calls := calls w @ pre\<rparr>) d) = w\<lparr>calls := calls w @ (pre @ cs)\<rparr>"
      by simp
    then show ?thesis by blast
  qed
  show ?case
  proof (cases "pdf_reader w pdf")
    case (Inl e)
    then show ?thesis using step by (simp add: Let_def record_call_def)
  next
    case (Inr pages)
    obtain r docs' where lp: "load_pages pdf 0 pages docs = (r, docs')"
      by (cases "load_pages pdf 0 pages docs")
    show ?thesis
      using Inr lp step by (cases r) (simp_all add: Let_def record_call_def)
  qed
qed

lemma load_docs_loop_calls_irrelevant:
  "fst (load_docs_loop pdfs (w\<lparr>calls := cs\<rparr>) docs) = fst (load_docs_loop pdfs w docs)"
  by (simp add: load_docs_loop_docs)

lemma list_pdfs_empty_iff:
  "fst (list_pdfs_in_cwd w) = [] \<longleftrightarrow>
     \<not> (\<exists>f\<in>set (listdir w). isfile w f \<and> endswith (lower f) (ascii ''.pdf''))"
  by (auto simp: list_pdfs_in_cwd_def filter_empty_conv)

lemma set_list_pdfs:
  "set (fst (list_pdfs_in_cwd w)) = {f \<in> set (listdir w). isfile w f \<and> endswith (lower f) (ascii ''.pdf'')}"
  by (auto simp: list_pdfs_in_cwd_def)

lemma enumerate_filter_empty_iff:
  "concat (map (\<lambda>(k, t). if P t then [g k t] else []) (enumerate i xs)) = [] \<longleftrightarrow> (\<forall>t\<in>set xs. \<not> P t)"
  by (induction xs arbitrary: i) auto

lemma load_docs_empty_iff:
  "fst (load_docs_from_files pdfs w) = [] \<longleftrightarrow>
     (\<forall>pdf\<in>set pdfs. \<forall>pages. pdf_reader w pdf = Inr pages \<longrightarrow>
        (\<forall>p\<in>set (takeWhile (\<lambda>p. \<not> isl p) pages). \<forall>c\<in>set (get_or_empty (projr p)). isspace c))"
proof -
  have "fst (load_docs_from_files pdfs w) = [] \<longleftrightarrow>
     (\<forall>pdf\<in>set pdfs. (case pdf_reader w pdf of
                Inl e \<Rightarrow> []
              | Inr pages \<Rightarrow>
                  [\<lparr>page_content = t, source = basename pdf, page = k + 1\<rparr> .
                    (k, t) \<leftarrow> enumerate 0 (map (\<lambda>p. get_or_empty (projr p)) (takeWhile (\<lambda>p. \<not> isl p) pages)),
                    \<not> (\<forall>c\<in>set t. isspace c)]) = [])"
    by (simp add: load_docs_from_files_def load_docs_loop_docs)
  also have "\<dots> \<longleftrightarrow> (\<forall>pdf\<in>set pdfs. \<forall>pages. pdf_reader w pdf = Inr pages \<longrightarrow>
        (\<forall>p\<in>set (takeWhile (\<lambda>p. \<not> isl p) pages). \<forall>c\<in>set (get_or_empty (projr p)). isspace c))"
  proof (rule ball_cong[OF refl])
    fix pdf assume "pdf \<in> set pdfs"
    show "((case pdf_reader w pdf of
                Inl e \<Rightarrow> []
              | Inr pages \<Rightarrow>
                  [\<lparr>page_content = t, source = basename pdf, page = k + 1\<rparr> .
                    (k, t) \<leftarrow> enumerate 0 (map (\<lambda>p. get_or_empty (projr p)) (takeWhile (\<lambda>p. \<not> isl p) pages)),
                    \<not> (\<forall>c\<in>set t. isspace c)]) = []) \<longleftrightarrow>
          (\<forall>pages. pdf_reader w pdf = Inr pages \<longrightarrow>
        (\<forall>p\<in>set (takeWhile (\<lambda>p. \<not> isl p) pages). \<forall>c\<in>set (get_or_empty (projr p)). isspace c))"
    proof (cases "pdf_reader w pdf")
      case (Inl e)
      then show ?thesis by simp
    next
      case (Inr pages)
      show ?thesis
        unfolding Inr sum.case enumerate_filter_empty_iff by simp
    qed
  qed
  finally show ?thesis .
qed

lemma load_docs_world:
  "\<exists>cs. snd (load_docs_from_files pdfs w) = w\<lparr>calls := calls w @ cs\<rparr>"
  by (simp add: load_docs_from_files_def load_docs_loop_world)

lemma load_docs_calls_irrelevant:
  "fst (load_docs_from_files pdfs (w\<lparr>calls := cs\<rparr>)) = fst (load_docs_from_files pdfs w)"
  by (simp add: load_docs_from_files_def load_docs_loop_docs)

lemma load_faiss_world:
  "\<exists>cs. snd (load_faiss d emb w) = w\<lparr>calls := calls w @ cs\<rparr> \<and> set cs \<subseteq> {LoadLocal True, LoadLocal False}"
proof (cases "load_local w True d emb")
  case (Inl e)
  show ?thesis
  proof (cases "is_TypeError e")
    case True
    have "snd (load_faiss d emb w) = w\<lparr>calls := calls w @ [LoadLocal True, LoadLocal False]\<rparr>"
      using Inl True by (simp add: load_faiss_def record_call_def)
    then show ?thesis by (intro exI[of _ "[LoadLocal True, LoadLocal False]"]) simp
  next
    case False
    have "snd (load_faiss d emb w) = w\<lparr>calls := calls w @ [LoadLocal True]\<rparr>"
      using Inl False by (simp add: load_faiss_def record_call_def)
    then show ?thesis by (intro exI[of _ "[LoadLocal True]"]) simp
  qed
next
  case (Inr vs)
  have "snd (load_faiss d emb w) = w\<lparr>calls := calls w @ [LoadLocal True]\<rparr>"
    using Inr by (simp add: load_faiss_def record_call_def)
  then show ?thesis by (intro exI[of _ "[LoadLocal True]"]) simp
qed

lemma build_or_load_existing:
  assumes "vectorstore w = Some d"
  shows "build_or_load_vectorstore api_key w =
           (map_sum id Some
              (fst (load_faiss d (OpenAIEmbeddings (ascii ''text-embedding-3-small'') api_key) w)),
            snd (load_faiss d (OpenAIEmbeddings (ascii ''text-embedding-3-small'') api_key) w))"
proof -
  obtain r w1 where lf: "load_faiss d (OpenAIEmbeddings (ascii ''text-embedding-3-small'') api_key) w = (r, w1)"
    by (cases "load_faiss d (OpenAIEmbeddings (ascii ''text-embedding-3-small'') api_key) w")
  show ?thesis using assms lf
    by (cases r) (simp_all add: build_or_load_vectorstore_def)
qed

lemma save_index_not_None: "fst (save_index w vs pdfs) \<noteq> Inr None"
  by (simp add: save_index_def Let_def split: option.splits prod.splits)

lemma save_index_calls_irrelevant:
  "save_index (w\<lparr>calls := cs\<rparr>) vs pdfs = save_index w vs pdfs"
  by (simp add: save_index_def Let_def split: option.splits prod.splits)

lemma build_or_load_absent:
  assumes "vectorstore w = None"
  shows "\<exists>cs. build_or_load_vectorstore api_key w =
     (let pdfs = fst (list_pdfs_in_cwd w);
          docs = fst (load_docs_from_files pdfs w);
          w2 = w\<lparr>calls := calls w @ cs\<rparr>
      in if pdfs = [] \<or> docs = [] then (Inr None, w2)
         else (case from_documents w (split_docs docs)
                      (OpenAIEmbeddings (ascii ''text-embedding-3-small'') api_key) of
                 Inl e \<Rightarrow> (Inl e, w2)
               | Inr vs \<Rightarrow>
                   (fst (save_index w vs pdfs),
                    w2\<lparr>vectorstore := fst (snd (save_index w vs pdfs))\<rparr>)))"
proof -
  define pdfs where "pdfs = fst (list_pdfs_in_cwd w)"
  define w1 where "w1 = record_call Listdir w"
  have lp: "list_pdfs_in_cwd w = (pdfs, w1)"
    by (simp add: pdfs_def w1_def list_pdfs_in_cwd_def)
  obtain docs w2 where ld: "load_docs_from_files pdfs w1 = (docs, w2)"
    by (cases "load_docs_from_files pdfs w1")
  have docs: "docs = fst (load_docs_from_files pdfs w)"
    using ld load_docs_calls_irrelevant[where pdfs = pdfs and w = w and cs = "calls w @ [Listdir]"]
    by (simp add: w1_def record_call_def)
  obtain cs where w2: "w2 = w\<lparr>calls := calls w @ Listdir # cs\<rparr>"
    using load_docs_world[of pdfs w1] ld by (auto simp: w1_def record_call_def)
  show ?thesis
  proof (cases "pdfs = []")
    case True
    then show ?thesis using assms lp
      by (intro exI[of _ "[Listdir]"])
         (simp add: build_or_load_vectorstore_def Let_def pdfs_def[symmetric] w1_def record_call_def)
  next
    case False
    note ne = this
    show ?thesis
    proof (cases "docs = []")
      case True
      then show ?thesis using assms lp ld ne docs w2
        by (intro exI[of _ "Listdir # cs"])
           (simp add: build_or_load_vectorstore_def Let_def pdfs_def[symmetric])
    next
      case False
      show ?thesis
      proof (cases "from_documents w (split_docs docs)
                      (OpenAIEmbeddings (ascii ''text-embedding-3-small'') api_key)")
        case (Inl e)
        then show ?thesis using assms lp ld ne False docs w2
          by (intro exI[of _ "Listdir # cs @ [FromDocuments (split_docs docs)]"])
             (simp add: build_or_load_vectorstore_def Let_def pdfs_def[symmetric] record_call_def)
      next
        case (Inr vs)
        obtain r d sc where si: "save_index w vs pdfs = (r, d, sc)"
          by (cases "save_index w vs pdfs") auto
        have si': "save_index (w\<lparr>calls := calls w @ Listdir # cs @ [FromDocuments (split_docs docs)]\<rparr>) vs pdfs =
                     (r, d, sc)"
          using si by (simp add: save_index_calls_irrelevant)
        show ?thesis using assms lp ld ne False docs w2 Inr si si'
          by (intro exI[of _ "Listdir # cs @ FromDocuments (split_docs docs) # sc"])
             (simp add: build_or_load_vectorstore_def Let_def pdfs_def[symmetric] record_call_def)
      qed
    qed
  qed
qed

text \<open>
  Claim C1. For every call of \<open>build_or_load_vectorstore\<close> with a credential:
  if the index directory exists, the result is that of loading it (the index loaded, or
  the exception of the load), only load calls are made, and the result does not depend on
  the listing of the working directory or on the PDF files; if it does not exist, the
  function returns \<open>None\<close> exactly when the listing has no PDF file or no page that
  is extracted has a text with a character that is not whitespace; otherwise it builds
  the index from the chunks of the extracted documents, makes the directory, saves the
  index and writes the metadata (time of the build, PDF files), and returns the index.
  Each of these four steps may raise: then the exception leaves the function, and the
  directory is as the steps so far have left it.
\<close>

theorem build_or_load_policy:
  fixes w :: "'v world"
  shows
  "(\<forall>d. vectorstore w = Some d \<longrightarrow>
      fst (build_or_load_vectorstore api_key w) =
        map_sum id Some (fst (load_faiss d (OpenAIEmbeddings (ascii ''text-embedding-3-small'') api_key) w)) \<and>
      (\<exists>cs. snd (build_or_load_vectorstore api_key w) = w\<lparr>calls := calls w @ cs\<rparr> \<and>
            set cs \<subseteq> {LoadLocal True, LoadLocal False}) \<and>
      (\<forall>l f r. fst (build_or_load_vectorstore api_key (w\<lparr>listdir := l, isfile := f, pdf_reader := r\<rparr>)) =
               fst (build_or_load_vectorstore api_key w))) \<and>
   (vectorstore w = None \<longrightarrow>
      (fst (build_or_load_vectorstore api_key w) = Inr None \<longleftrightarrow>
         \<not> (\<exists>f\<in>set (listdir w). isfile w f \<and> endswith (lower f) (ascii ''.pdf'')) \<or>
         (\<forall>f\<in>set (listdir w). isfile w f \<and> endswith (lower f) (ascii ''.pdf'') \<longrightarrow>
            (\<forall>pages. pdf_reader w f = Inr pages \<longrightarrow>
               (\<forall>p\<in>set (takeWhile (\<lambda>p. \<not> isl p) pages).
                  \<forall>c\<in>set (get_or_empty (projr p)). isspace c))))) \<and>
   (vectorstore w = None \<and> fst (build_or_load_vectorstore api_key w) \<noteq> Inr None \<longrightarrow>
      (case from_documents w
              (split_docs (fst (load_docs_from_files (fst (list_pdfs_in_cwd w)) w)))
              (OpenAIEmbeddings (ascii ''text-embedding-3-small'') api_key) of
         Inl e \<Rightarrow>
           fst (build_or_load_vectorstore api_key w) = Inl e \<and>
           vectorstore (snd (build_or_load_vectorstore api_key w)) = None
       | Inr vs \<Rightarrow>
           (case makedirs w of
              Some e \<Rightarrow>
                fst (build_or_load_vectorstore api_key w) = Inl e \<and>
                vectorstore (snd (build_or_load_vectorstore api_key w)) = None
            | None \<Rightarrow>
                (case save_local w vs of
                   Some (e, left) \<Rightarrow>
                     fst (build_or_load_vectorstore api_key w) = Inl e \<and>
                     vectorstore (snd (build_or_load_vectorstore api_key w)) =
                       Some \<lparr>index_files = left, metadata_json = None\<rparr>
                 | None \<Rightarrow>
                     (case write_metadata w \<lparr>built_at = now_isoformat w,
                                              pdf_files_written = fst (list_pdfs_in_cwd w)\<rparr> of
                        Some (e, left) \<Rightarrow>
                          fst (build_or_load_vectorstore api_key w) = Inl e \<and>
                          vectorstore (snd (build_or_load_vectorstore api_key w)) =
                            Some \<lparr>index_files = Some vs, metadata_json = left\<rparr>
                      | None \<Rightarrow>
                          fst (build_or_load_vectorstore api_key w) = Inr (Some vs) \<and>
                          vectorstore (snd (build_or_load_vectorstore api_key w)) =
                            Some \<lparr>index_files = Some vs,
                                  metadata_json =
                                    Some \<lparr>built_at = now_isoformat w,
                                          pdf_files_written = fst (list_pdfs_in_cwd w)\<rparr>\<rparr>)))))"
proof (intro conjI allI impI)
  fix d assume d: "vectorstore w = Some d"
  show "fst (build_or_load_vectorstore api_key w) =
        map_sum id Some (fst (load_faiss d (OpenAIEmbeddings (ascii ''text-embedding-3-small'') api_key) w))"
    by (simp add: build_or_load_existing[OF d])
  show "\<exists>cs. snd (build_or_load_vectorstore api_key w) = w\<lparr>calls := calls w @ cs\<rparr> \<and>
            set cs \<subseteq> {LoadLocal True, LoadLocal False}"
    using load_faiss_world by (simp add: build_or_load_existing[OF d])
  fix l f r
  have d': "vectorstore (w\<lparr>listdir := l, isfile := f, pdf_reader := r\<rparr>) = Some d"
    using d by simp
  show "fst (build_or_load_vectorstore api_key (w\<lparr>listdir := l, isfile := f, pdf_reader := r\<rparr>)) =
               fst (build_or_load_vectorstore api_key w)"
    by (simp add: build_or_load_existing[OF d] build_or_load_existing[OF d'] load_faiss_def Let_def
             split: sum.splits)
next
  assume n: "vectorstore w = None"
  obtain cs where b: "build_or_load_vectorstore api_key w =
     (let pdfs = fst (list_pdfs_in_cwd w);
          docs = fst (load_docs_from_files pdfs w);
          w2 = w\<lparr>calls := calls w @ cs\<rparr>
      in if pdfs = [] \<or> docs = [] then (Inr None, w2)
         else (case from_documents w (split_docs docs)
                      (OpenAIEmbeddings (ascii ''text-embedding-3-small'') api_key) of
                 Inl e \<Rightarrow> (Inl e, w2)
               | Inr vs \<Rightarrow>
                   (fst (save_index w vs pdfs),
                    w2\<lparr>vectorstore := fst (snd (save_index w vs pdfs))\<rparr>)))"
    using build_or_load_absent[OF n] by blast
  have "fst (build_or_load_vectorstore api_key w) = Inr None \<longleftrightarrow>
          fst (list_pdfs_in_cwd w) = [] \<or> fst (load_docs_from_files (fst (list_pdfs_in_cwd w)) w) = []"
    unfolding b by (simp add: Let_def save_index_not_None split: sum.splits)
  also have "\<dots> \<longleftrightarrow>
         \<not> (\<exists>f\<in>set (listdir w). isfile w f \<and> endswith (lower f) (ascii ''.pdf'')) \<or>
         (\<forall>f\<in>set (listdir w). isfile w f \<and> endswith (lower f) (ascii ''.pdf'') \<longrightarrow>
            (\<forall>pages. pdf_reader w f = Inr pages \<longrightarrow>
               (\<forall>p\<in>set (takeWhile (\<lambda>p. \<not> isl p) pages).
                  \<forall>c\<in>set (get_or_empty (projr p)). isspace c)))"
    unfolding list_pdfs_empty_iff load_docs_empty_iff set_list_pdfs by blast
  finally show "fst (build_or_load_vectorstore api_key w) = Inr None \<longleftrightarrow>
         \<not> (\<exists>f\<in>set (listdir w). isfile w f \<and> endswith (lower f) (ascii ''.pdf'')) \<or>
         (\<forall>f\<in>set (listdir w). isfile w f \<and> endswith (lower f) (ascii ''.pdf'') \<longrightarrow>
            (\<forall>pages. pdf_reader w f = Inr pages \<longrightarrow>
               (\<forall>p\<in>set (takeWhile (\<lambda>p. \<not> isl p) pages).
                  \<forall>c\<in>set (get_or_empty (projr p)). isspace c)))" .
next
  assume a: "vectorstore w = None \<and> fst (build_or_load_vectorstore api_key w) \<noteq> Inr None"
  then have n: "vectorstore w = None" by simp
  obtain cs where b: "build_or_load_vectorstore api_key w =
     (let pdfs = fst (list_pdfs_in_cwd w);
          docs = fst (load_docs_from_files pdfs w);
          w2 = w\<lparr>calls := calls w @ cs\<rparr>
      in if pdfs = [] \<or> docs = [] then (Inr None, w2)
         else (case from_documents w (split_docs docs)
                      (OpenAIEmbeddings (ascii ''text-embedding-3-small'') api_key) of
                 Inl e \<Rightarrow> (Inl e, w2)
               | Inr vs \<Rightarrow>
                   (fst (save_index w vs pdfs),
                    w2\<lparr>vectorstore := fst (snd (save_index w vs pdfs))\<rparr>)))"
    using build_or_load_absent[OF n] by blast
  have ne: "\<not> (fst (list_pdfs_in_cwd w) = [] \<or> fst (load_docs_from_files (fst (list_pdfs_in_cwd w)) w) = [])"
    using a unfolding b by (auto simp: Let_def)
  show "(case from_documents w
              (split_docs (fst (load_docs_from_files (fst (list_pdfs_in_cwd w)) w)))
              (OpenAIEmbeddings (ascii ''text-embedding-3-small'') api_key) of
         Inl e \<Rightarrow>
           fst (build_or_load_vectorstore api_key w) = Inl e \<and>
           vectorstore (snd (build_or_load_vectorstore api_key w)) = None
       | Inr vs \<Rightarrow>
           (case makedirs w of
              Some e \<Rightarrow>
                fst (build_or_load_vectorstore api_key w) = Inl e \<and>
                vectorstore (snd (build_or_load_vectorstore api_key w)) = None
            | None \<Rightarrow>
                (case save_local w vs of
                   Some (e, left) \<Rightarrow>
                     fst (build_or_load_vectorstore api_key w) = Inl e \<and>
                     vectorstore (snd (build_or_load_vectorstore api_key w)) =
                       Some \<lparr>index_files = left, metadata_json = None\<rparr>
                 | None \<Rightarrow>
                     (case write_metadata w \<lparr>built_at = now_isoformat w,
                                              pdf_files_written = fst (list_pdfs_in_cwd w)\<rparr> of
                        Some (e, left) \<Rightarrow>
                          fst (build_or_load_vectorstore api_key w) = Inl e \<and>
                          vectorstore (snd (build_or_load_vectorstore api_key w)) =
                            Some \<lparr>index_files = Some vs, metadata_json = left\<rparr>
                      | None \<Rightarrow>
                          fst (build_or_load_vectorstore api_key w) = Inr (Some vs) \<and>
                          vectorstore (snd (build_or_load_vectorstore api_key w)) =
                            Some \<lparr>index_files = Some vs,
                                  metadata_json =
                                    Some \<lparr>built_at = now_isoformat w,
                                          pdf_files_written = fst (list_pdfs_in_cwd w)\<rparr>\<rparr>))))"
    unfolding b using ne n
    by (simp add: Let_def save_index_def split: sum.splits option.splits prod.splits)
qed

lemmas ex_simps = example_world_def ascii_def build_or_load_vectorstore_def list_pdfs_in_cwd_def
  load_docs_from_files_def record_call_def lower_def lower_cp_def endswith_def suffix_to_prefix
  strip_def isspace_def basename_def split_docs_soil_points save_index_def OpenAIEmbeddings_def
  load_faiss_def Let_def

text \<open>
  The policy at four worlds: PDFs and no index directory; no PDF; an index directory;
  and PDFs with a file in the place of the directory, so that it cannot be made.
\<close>

theorem build_or_load_policy_witness:
  "fst (build_or_load_vectorstore (ascii ''sk-example'') example_world) =
     Inr (Some [\<lparr>page_content = ascii ''Soil bearing capacity'', source = ascii ''soil.pdf'', page = 1\<rparr>]) \<and>
   vectorstore (snd (build_or_load_vectorstore (ascii ''sk-example'') example_world)) =
     Some \<lparr>index_files =
             Some [\<lparr>page_content = ascii ''Soil bearing capacity'', source = ascii ''soil.pdf'', page = 1\<rparr>],
           metadata_json = Some \<lparr>built_at = ascii ''2025-01-01T00:00:00'',
                                  pdf_files_written = [ascii ''soil.pdf'']\<rparr>\<rparr> \<and>
   fst (build_or_load_vectorstore (ascii ''sk-example'') (example_world\<lparr>listdir := [ascii ''notes.txt'']\<rparr>)) =
     Inr None \<and>
   fst (build_or_load_vectorstore (ascii ''sk-example'')
          (example_world\<lparr>vectorstore := Some \<lparr>index_files = Some [], metadata_json = None\<rparr>\<rparr>)) =
     Inr (Some []) \<and>
   fst (build_or_load_vectorstore (ascii ''sk-example'')
          (example_world\<lparr>makedirs := Some (OtherException (ascii ''File exists''))\<rparr>)) =
     Inl (OtherException (ascii ''File exists'')) \<and>
   vectorstore (snd (build_or_load_vectorstore (ascii ''sk-example'')
          (example_world\<lparr>makedirs := Some (OtherException (ascii ''File exists''))\<rparr>))) = None"
  using build_or_load_policy[of example_world "ascii ''sk-example''"]
        build_or_load_policy[of "example_world\<lparr>listdir := [ascii ''notes.txt'']\<rparr>" "ascii ''sk-example''"]
        build_or_load_policy[of "example_world\<lparr>vectorstore := Some \<lparr>index_files = Some [], metadata_json = None\<rparr>\<rparr>" "ascii ''sk-example''"]
        build_or_load_policy[of "example_world\<lparr>makedirs := Some (OtherException (ascii ''File exists''))\<rparr>" "ascii ''sk-example''"]
  by (simp add: ex_simps)

lemma in_concat_map: "d \<in> set (concat (map F xs)) \<Longrightarrow> \<exists>x\<in>set xs. d \<in> set (F x)"
  by auto

text \<open>
  Claim C7. The documents of a list of PDF files are, file by file and page by page,
  the pages extracted (up to the first page whose extraction raises, and none for a
  file that cannot be read) whose text has a character that is not whitespace, each
  numbered by its position in the file counted from 1. So no document has an empty or
  whitespace-only text, and a PDF of two pages whose second page is empty gives the one
  document of its first page, with page number 1.
\<close>

theorem load_docs_skips_blank_pages:
  "fst (load_docs_from_files pdfs w) =
     concat (map (\<lambda>pdf. case pdf_reader w pdf of
                Inl e \<Rightarrow> []
              | Inr pages \<Rightarrow>
                  [\<lparr>page_content = t, source = basename pdf, page = k + 1\<rparr> .
                    (k, t) \<leftarrow> enumerate 0 (map (\<lambda>p. get_or_empty (projr p)) (takeWhile (\<lambda>p. \<not> isl p) pages)),
                    \<not> (\<forall>c\<in>set t. isspace c)]) pdfs) \<and>
   (\<forall>d\<in>set (fst (load_docs_from_files pdfs w)). \<not> (\<forall>c\<in>set (page_content d). isspace c) \<and> 1 \<le> page d) \<and>
   (pdf_reader w pdf = Inr [Inr (Some t1), Inr t2] \<and> \<not> (\<forall>c\<in>set t1. isspace c) \<and>
    (\<forall>c\<in>set (get_or_empty t2). isspace c) \<longrightarrow>
      fst (load_docs_from_files [pdf] w) = [\<lparr>page_content = t1, source = basename pdf, page = 1\<rparr>])"
proof (intro conjI ballI impI)
  show eq: "fst (load_docs_from_files pdfs w) =
     concat (map (\<lambda>pdf. case pdf_reader w pdf of
                Inl e \<Rightarrow> []
              | Inr pages \<Rightarrow>
                  [\<lparr>page_content = t, source = basename pdf, page = k + 1\<rparr> .
                    (k, t) \<leftarrow> enumerate 0 (map (\<lambda>p. get_or_empty (projr p)) (takeWhile (\<lambda>p. \<not> isl p) pages)),
                    \<not> (\<forall>c\<in>set t. isspace c)]) pdfs)"
    by (simp add: load_docs_from_files_def load_docs_loop_docs)
  fix d assume "d \<in> set (fst (load_docs_from_files pdfs w))"
  then have "\<exists>pdf\<in>set pdfs. d \<in> set (case pdf_reader w pdf of
                Inl e \<Rightarrow> []
              | Inr pages \<Rightarrow>
                  [\<lparr>page_content = t, source = basename pdf, page = k + 1\<rparr> .
                    (k, t) \<leftarrow> enumerate 0 (map (\<lambda>p. get_or_empty (projr p)) (takeWhile (\<lambda>p. \<not> isl p) pages)),
                    \<not> (\<forall>c\<in>set t. isspace c)])"
    unfolding eq by (rule in_concat_map)
  then obtain pdf where
    d: "d \<in> set (case pdf_reader w pdf of
                Inl e \<Rightarrow> []
              | Inr pages \<Rightarrow>
                  [\<lparr>page_content = t, source = basename pdf, page = k + 1\<rparr> .
                    (k, t) \<leftarrow> enumerate 0 (map (\<lambda>p. get_or_empty (projr p)) (takeWhile (\<lambda>p. \<not> isl p) pages)),
                    \<not> (\<forall>c\<in>set t. isspace c)])"
    by blast
  from d show "\<not> (\<forall>c\<in>set (page_content d). isspace c)"
    by (cases "pdf_reader w pdf") (auto split: if_splits)
  from d show "1 \<le> page d"
    by (cases "pdf_reader w pdf") (auto split: if_splits)
next
  assume "pdf_reader w pdf = Inr [Inr (Some t1), Inr t2] \<and> \<not> (\<forall>c\<in>set t1. isspace c) \<and>
    (\<forall>c\<in>set (get_or_empty t2). isspace c)"
  then show "fst (load_docs_from_files [pdf] w) = [\<lparr>page_content = t1, source = basename pdf, page = 1\<rparr>]"
    unfolding load_docs_from_files_def load_docs_loop_docs
    by (simp add: get_or_empty_def)
qed

text \<open>The scenario of the specification: the second page of the PDF is empty.\<close>

theorem load_docs_skips_blank_pages_witness:
  "fst (load_docs_from_files [ascii ''soil.pdf'', ascii ''notes.txt''] example_world) =
     [\<lparr>page_content = ascii ''Soil bearing capacity'', source = ascii ''soil.pdf'', page = 1\<rparr>]"
  using load_docs_skips_blank_pages[of "[ascii ''soil.pdf'', ascii ''notes.txt'']" example_world
          "ascii ''soil.pdf''" "ascii ''Soil bearing capacity''" "Some []"]
  by (simp add: ex_simps get_or_empty_def)

text \<open>
  Claim C5. \<open>build_or_load_vectorstore\<close> returns \<open>None\<close> only when there is no index
  directory and the listing has no PDF file or the files give no document. A load of an
  existing directory that fails leaves the function as an exception: \<open>_load_faiss\<close>
  passes on every exception but a \<open>TypeError\<close> of the first attempt, after which the
  exception of the second attempt is passed on; and an index it returns is one that
  the library's load returned.
\<close>

theorem failed_load_is_an_error:
  fixes w :: "'v world"
  shows
  "(fst (build_or_load_vectorstore api_key w) = Inr None \<longrightarrow>
      vectorstore w = None \<and>
      (fst (list_pdfs_in_cwd w) = [] \<or>
       fst (load_docs_from_files (fst (list_pdfs_in_cwd w)) w) = [])) \<and>
   (\<forall>d e. vectorstore w = Some d \<and>
           fst (load_faiss d (OpenAIEmbeddings (ascii ''text-embedding-3-small'') api_key) w) = Inl e \<longrightarrow>
           fst (build_or_load_vectorstore api_key w) = Inl e) \<and>
   (\<forall>d e. load_local w True d emb = Inl e \<and> \<not> is_TypeError e \<longrightarrow>
           fst (load_faiss d emb w) = Inl e) \<and>
   (\<forall>d e e2. load_local w True d emb = Inl e \<and> is_TypeError e \<and> load_local w False d emb = Inl e2 \<longrightarrow>
           fst (load_faiss d emb w) = Inl e2) \<and>
   (\<forall>d vs. fst (load_faiss d emb w) = Inr vs \<longrightarrow>
           load_local w True d emb = Inr vs \<or>
           (\<exists>e. load_local w True d emb = Inl e \<and> is_TypeError e \<and> load_local w False d emb = Inr vs))"
proof (intro conjI allI impI)
  assume r: "fst (build_or_load_vectorstore api_key w) = Inr None"
  show "vectorstore w = None"
  proof (cases "vectorstore w")
    case None then show ?thesis .
  next
    case (Some d)
    from r show ?thesis
      unfolding build_or_load_existing[OF Some]
      by (cases "fst (load_faiss d (OpenAIEmbeddings (ascii ''text-embedding-3-small'') api_key) w)") simp_all
  qed
  then obtain cs where b: "build_or_load_vectorstore api_key w =
     (let pdfs = fst (list_pdfs_in_cwd w);
          docs = fst (load_docs_from_files pdfs w);
          w2 = w\<lparr>calls := calls w @ cs\<rparr>
      in if pdfs = [] \<or> docs = [] then (Inr None, w2)
         else (case from_documents w (split_docs docs)
                      (OpenAIEmbeddings (ascii ''text-embedding-3-small'') api_key) of
                 Inl e \<Rightarrow> (Inl e, w2)
               | Inr vs \<Rightarrow>
                   (fst (save_index w vs pdfs),
                    w2\<lparr>vectorstore := fst (snd (save_index w vs pdfs))\<rparr>)))"
    using build_or_load_absent by blast
  from r show "fst (list_pdfs_in_cwd w) = [] \<or>
       fst (load_docs_from_files (fst (list_pdfs_in_cwd w)) w) = []"
    unfolding b by (auto simp: Let_def save_index_not_None split: if_splits sum.splits)
next
  fix d e
  assume "vectorstore w = Some d \<and>
           fst (load_faiss d (OpenAIEmbeddings (ascii ''text-embedding-3-small'') api_key) w) = Inl e"
  then show "fst (build_or_load_vectorstore api_key w) = Inl e"
    by (simp add: build_or_load_existing)
next
  fix d e
  assume "load_local w True d emb = Inl e \<and> \<not> is_TypeError e"
  then show "fst (load_faiss d emb w) = Inl e"
    by (simp add: load_faiss_def Let_def)
next
  fix d e e2
  assume "load_local w True d emb = Inl e \<and> is_TypeError e \<and> load_local w False d emb = Inl e2"
  then show "fst (load_faiss d emb w) = Inl e2"
    by (simp add: load_faiss_def Let_def)
next
  fix d vs
  assume "fst (load_faiss d emb w) = Inr vs"
  then show "load_local w True d emb = Inr vs \<or>
           (\<exists>e. load_local w True d emb = Inl e \<and> is_TypeError e \<and> load_local w False d emb = Inr vs)"
    by (auto simp: load_faiss_def Let_def split: sum.splits if_splits)
qed

text \<open>A directory without index files and no PDF: the load fails, and the result is its exception.\<close>

theorem failed_load_is_an_error_witness:
  "fst (build_or_load_vectorstore (ascii ''sk-example'')
          (example_world\<lparr>listdir := [], vectorstore := Some \<lparr>index_files = None, metadata_json = None\<rparr>\<rparr>)) =
     Inl (OtherException (ascii ''no index file'')) \<and>
   fst (build_or_load_vectorstore (ascii ''sk-example'') (example_world\<lparr>listdir := []\<rparr>)) = Inr None \<and>
   fst (load_faiss \<lparr>index_files = None, metadata_json = None\<rparr>
          (OpenAIEmbeddings (ascii ''text-embedding-3-small'') (ascii ''sk-example''))
          (example_world\<lparr>load_local := old_load_local\<rparr>)) =
     Inl (OtherException (ascii ''no index file'')) \<and>
   fst (load_faiss \<lparr>index_files = Some [], metadata_json = None\<rparr>
          (OpenAIEmbeddings (ascii ''text-embedding-3-small'') (ascii ''sk-example''))
          (example_world\<lparr>load_local := old_load_local\<rparr>)) = Inr []"
  using failed_load_is_an_error[of "ascii ''sk-example''"
          "example_world\<lparr>listdir := [], vectorstore := Some \<lparr>index_files = None, metadata_json = None\<rparr>\<rparr>"
          "OpenAIEmbeddings (ascii ''text-embedding-3-small'') (ascii ''sk-example'')"]
        failed_load_is_an_error[of "ascii ''sk-example''" "example_world\<lparr>listdir := []\<rparr>"
          "OpenAIEmbeddings (ascii ''text-embedding-3-small'') (ascii ''sk-example'')"]
        failed_load_is_an_error[of "ascii ''sk-example''" "example_world\<lparr>load_local := old_load_local\<rparr>"
          "OpenAIEmbeddings (ascii ''text-embedding-3-small'') (ascii ''sk-example'')"]
  by (simp add: ex_simps old_load_local_def)

section \<open>The chat handler and the session\<close>


lemma tidy_MSG_MISSING_KEY: "tidy_response MSG_MISSING_KEY = MSG_MISSING_KEY"
  by (simp add: tidy_response_def MSG_MISSING_KEY_def replace_def ascii_def strip_def isspace_def Let_def)

lemma tidy_MSG_NO_PDFS: "tidy_response MSG_NO_PDFS = MSG_NO_PDFS"
  by (simp add: tidy_response_def MSG_NO_PDFS_def replace_def ascii_def strip_def isspace_def Let_def)

lemma tidy_MSG_NOT_READY: "tidy_response MSG_NOT_READY = MSG_NOT_READY"
  by (simp add: tidy_response_def MSG_NOT_READY_def replace_def ascii_def strip_def isspace_def Let_def)

lemma MSG_distinct:
  "MSG_MISSING_KEY \<noteq> MSG_NO_PDFS \<and> MSG_MISSING_KEY \<noteq> MSG_NOT_READY \<and> MSG_NO_PDFS \<noteq> MSG_NOT_READY"
  by (simp add: MSG_MISSING_KEY_def MSG_NO_PDFS_def MSG_NOT_READY_def ascii_def)

text \<open>
  Claim C3. A question (a submission whose text is not blank) sent while the session
  has no conversation chain calls nothing outside the session: the world, with its
  record of calls, is unchanged. The log gains the question and a guidance message
  chosen by the status: one for \<open>missing_key\<close>, one for \<open>no_pdfs\<close>, and a third for
  every other status; the three messages are different, and \<open>tidy_response\<close> leaves
  each as it is.
\<close>

theorem not_ready_guidance:
  assumes "conversation s = None" and "strip q \<noteq> []"
  shows "chat_submit True q s w =
           (True,
            s\<lparr>messages := messages s @
                 [\<lparr>role = ''user'', content = q\<rparr>,
                  \<lparr>role = ''assistant'',
                   content = (if rag_status s = ''missing_key'' then MSG_MISSING_KEY
                              else if rag_status s = ''no_pdfs'' then MSG_NO_PDFS
                              else MSG_NOT_READY)\<rparr>]\<rparr>,
            w) \<and>
         MSG_MISSING_KEY \<noteq> MSG_NO_PDFS \<and> MSG_MISSING_KEY \<noteq> MSG_NOT_READY \<and>
         MSG_NO_PDFS \<noteq> MSG_NOT_READY"
  using assms MSG_distinct
  by (simp add: chat_submit_def Let_def tidy_MSG_MISSING_KEY tidy_MSG_NO_PDFS tidy_MSG_NOT_READY)

lemmas session_simps = initial_session_def chat_submit_def ensure_conversation_def get_api_key_def
  get_or_empty_def str_or_def make_chain_def rebuild_knowledge_base_def

text \<open>
  A question to a session without a credential, to one without documents, and to one
  that has not been initialised.
\<close>

theorem not_ready_guidance_witness:
  "chat_submit True (ascii ''What is a shallow foundation?'')
     (initial_session\<lparr>rag_status := ''missing_key''\<rparr>) example_world =
     (True,
      initial_session\<lparr>rag_status := ''missing_key'',
        messages := [\<lparr>role = ''user'', content = ascii ''What is a shallow foundation?''\<rparr>,
                     \<lparr>role = ''assistant'', content = MSG_MISSING_KEY\<rparr>]\<rparr>,
      example_world) \<and>
   chat_submit True (ascii ''What is a shallow foundation?'')
     (initial_session\<lparr>rag_status := ''no_pdfs''\<rparr>) example_world =
     (True,
      initial_session\<lparr>rag_status := ''no_pdfs'',
        messages := [\<lparr>role = ''user'', content = ascii ''What is a shallow foundation?''\<rparr>,
                     \<lparr>role = ''assistant'', content = MSG_NO_PDFS\<rparr>]\<rparr>,
      example_world) \<and>
   chat_submit True (ascii ''What is a shallow foundation?'') initial_session example_world =
     (True,
      initial_session\<lparr>
        messages := [\<lparr>role = ''user'', content = ascii ''What is a shallow foundation?''\<rparr>,
                     \<lparr>role = ''assistant'', content = MSG_NOT_READY\<rparr>]\<rparr>,
      example_world)"
  using not_ready_guidance[of "initial_session\<lparr>rag_status := ''missing_key''\<rparr>"
          "ascii ''What is a shallow foundation?''" example_world]
        not_ready_guidance[of "initial_session\<lparr>rag_status := ''no_pdfs''\<rparr>"
          "ascii ''What is a shallow foundation?''" example_world]
        not_ready_guidance[of initial_session "ascii ''What is a shallow foundation?''" example_world]
  by (simp add: initial_session_def ascii_def strip_def isspace_def)

text \<open>
  Claim C10. A submission whose text is empty or has whitespace only changes nothing:
  the session, its message log included, and the world, its record of calls included,
  are the same after the handler, and \<open>st.rerun()\<close> is not reached.
\<close>

theorem blank_question_is_ignored:
  assumes "\<forall>c\<in>set q. isspace c"
  shows "chat_submit submitted q s w = (False, s, w)"
  using assms by (simp add: chat_submit_def strip_eq_Nil_iff)

text \<open>
  Three spaces, and the empty text.
\<close>

theorem blank_question_is_ignored_witness:
  "chat_submit True (ascii ''   '') initial_session example_world = (False, initial_session, example_world) \<and>
   chat_submit True [] initial_session example_world = (False, initial_session, example_world)"
  using blank_question_is_ignored[of "ascii ''   ''" True initial_session example_world]
        blank_question_is_ignored[of "[]" True initial_session example_world]
  by (simp add: ascii_def isspace_def)

text \<open>
  Claim C4. When the session has a chain and the call of the chain on a question
  raises, the handler ends normally: the log has the question, which the handler
  appends before it calls the chain, and after it the assistant's answer \<open>(RAG error: ...)\<close> with the text of the
  exception, passed through \<open>tidy_response\<close>; the session keeps its chain object, in
  the state the failed call left it, and no other field of the session changes; the
  world gains the record of the call. The next question goes to the chain again, and
  when that call succeeds its answer is appended in the same way.
\<close>

theorem chain_error_is_caught:
  assumes "conversation s = Some c" and "strip q \<noteq> []" and "chain_call w c q = (Inl e, c')"
  shows "chat_submit True q s w =
           (True,
            s\<lparr>conversation := Some c',
              messages := messages s @
                 [\<lparr>role = ''user'', content = q\<rparr>,
                  \<lparr>role = ''assistant'',
                   content = tidy_response (ascii ''(RAG error: '' @ str_exn e @ ascii '')'')\<rparr>]\<rparr>,
            record_call (ChainCall q) w) \<and>
         (\<forall>q2 r c2 w2. strip q2 \<noteq> [] \<and> chain_call w2 c' q2 = (Inr r, c2) \<longrightarrow>
            chat_submit True q2 (fst (snd (chat_submit True q s w))) w2 =
              (True,
               s\<lparr>conversation := Some c2,
                 messages := messages s @
                   [\<lparr>role = ''user'', content = q\<rparr>,
                    \<lparr>role = ''assistant'',
                     content = tidy_response (ascii ''(RAG error: '' @ str_exn e @ ascii '')'')\<rparr>,
                    \<lparr>role = ''user'', content = q2\<rparr>,
                    \<lparr>role = ''assistant'',
                     content = tidy_response (case r ''answer'' of Some a \<Rightarrow> a
                                              | None \<Rightarrow> ascii ''(no answer returned)'')\<rparr>]\<rparr>,
               record_call (ChainCall q2) w2))"
proof -
  have first: "chat_submit True q s w =
           (True,
            s\<lparr>conversation := Some c',
              messages := messages s @
                 [\<lparr>role = ''user'', content = q\<rparr>,
                  \<lparr>role = ''assistant'',
                   content = tidy_response (ascii ''(RAG error: '' @ str_exn e @ ascii '')'')\<rparr>]\<rparr>,
            record_call (ChainCall q) w)"
    using assms by (simp add: chat_submit_def Let_def)
  show ?thesis
    unfolding first by (simp add: chat_submit_def Let_def)
qed

lemma tidy_connection_error:
  "tidy_response (ascii ''(RAG error: Connection error.)'') = ascii ''(RAG error: Connection error.)''"
  by (simp add: tidy_response_def replace_def ascii_def strip_def isspace_def Let_def)

lemma tidy_spread_footings:
  "tidy_response (ascii ''Spread footings.'') = ascii ''Spread footings.''"
  by (simp add: tidy_response_def replace_def ascii_def strip_def isspace_def Let_def)

lemma strip_question: "strip (ascii ''What is a shallow foundation?'') \<noteq> []"
  by (simp add: ascii_def strip_def isspace_def)

text \<open>
  A provider that cannot be reached, and the same question once it answers again.
\<close>

theorem chain_error_is_caught_witness:
  "chat_submit True (ascii ''What is a shallow foundation?'') ready_session
       (example_world\<lparr>chain_call := failing_provider\<rparr>) =
     (True,
      ready_session\<lparr>messages :=
        [\<lparr>role = ''user'', content = ascii ''What is a shallow foundation?''\<rparr>,
         \<lparr>role = ''assistant'', content = ascii ''(RAG error: Connection error.)''\<rparr>]\<rparr>,
      example_world\<lparr>chain_call := failing_provider,
                     calls := [ChainCall (ascii ''What is a shallow foundation?'')]\<rparr>) \<and>
   messages (fst (snd (chat_submit True (ascii ''What is a shallow foundation?'')
      (fst (snd (chat_submit True (ascii ''What is a shallow foundation?'') ready_session
                  (example_world\<lparr>chain_call := failing_provider\<rparr>))))
      example_world))) =
     [\<lparr>role = ''user'', content = ascii ''What is a shallow foundation?''\<rparr>,
      \<lparr>role = ''assistant'', content = ascii ''(RAG error: Connection error.)''\<rparr>,
      \<lparr>role = ''user'', content = ascii ''What is a shallow foundation?''\<rparr>,
      \<lparr>role = ''assistant'', content = ascii ''Spread footings.''\<rparr>]"
proof -
  let ?q = "ascii ''What is a shallow foundation?''"
  let ?c = "make_chain [] (ascii ''sk-example'') :: document list chain"
  let ?w = "example_world\<lparr>chain_call := failing_provider\<rparr>"
  have c: "conversation ready_session = Some ?c"
    by (simp add: ready_session_def initial_session_def)
  have f: "chain_call ?w ?c ?q = (Inl (OtherException (ascii ''Connection error.'')), ?c)"
    by (simp add: failing_provider_def)
  have ok: "strip ?q \<noteq> [] \<and>
            chain_call example_world ?c ?q =
              (Inr [''answer'' \<mapsto> ascii ''Spread footings.''],
               ?c\<lparr>memory := memory ?c @ [(?q, ascii ''Spread footings.'')]\<rparr>)"
    using strip_question by (simp add: example_world_def)
  note t = chain_error_is_caught[OF c strip_question f]
  have first: "chat_submit True ?q ready_session ?w =
     (True,
      ready_session\<lparr>messages :=
        [\<lparr>role = ''user'', content = ?q\<rparr>,
         \<lparr>role = ''assistant'', content = ascii ''(RAG error: Connection error.)''\<rparr>]\<rparr>,
      example_world\<lparr>chain_call := failing_provider, calls := [ChainCall ?q]\<rparr>)"
    using t[THEN conjunct1] tidy_connection_error
    by (simp add: ready_session_def initial_session_def record_call_def example_world_def ascii_def)
  have second: "messages (fst (snd (chat_submit True ?q (fst (snd (chat_submit True ?q ready_session ?w))) example_world))) =
     [\<lparr>role = ''user'', content = ?q\<rparr>,
      \<lparr>role = ''assistant'', content = ascii ''(RAG error: Connection error.)''\<rparr>,
      \<lparr>role = ''user'', content = ?q\<rparr>,
      \<lparr>role = ''assistant'', content = ascii ''Spread footings.''\<rparr>]"
    using t[THEN conjunct2, rule_format, OF ok] tidy_connection_error tidy_spread_footings
    by (simp add: ready_session_def initial_session_def ascii_def)
  from first second show ?thesis by (rule conjI)
qed

lemma whitespace_strip: "\<forall>c\<in>set v. isspace c \<Longrightarrow> strip v = []"
  by (simp add: strip_eq_Nil_iff)

text \<open>
  Claim C9, amended. \<open>get_api_key\<close> reads the environment variable only when the
  override is absent or empty. When the override is a non-empty string of whitespace
  only, \<open>get_api_key\<close> is empty whatever the environment holds, and
  \<open>ensure_conversation\<close> sets the status \<open>missing_key\<close> when the session has no chain;
  a session that has a chain is returned as it is.
\<close>

theorem whitespace_override_hides_env_key:
  "(get_or_empty (OPENAI_API_KEY_OVERRIDE s) \<noteq> [] \<longrightarrow>
      get_api_key s w = strip (get_or_empty (OPENAI_API_KEY_OVERRIDE s))) \<and>
   (get_or_empty (OPENAI_API_KEY_OVERRIDE s) = [] \<longrightarrow>
      get_api_key s w = strip (get_or_empty (env_OPENAI_API_KEY w))) \<and>
   (OPENAI_API_KEY_OVERRIDE s = Some v \<and> v \<noteq> [] \<and> (\<forall>c\<in>set v. isspace c) \<longrightarrow>
      get_api_key s w = [] \<and>
      (conversation s = None \<longrightarrow>
         ensure_conversation s w = (None, s\<lparr>rag_status := ''missing_key''\<rparr>, w)) \<and>
      (conversation s \<noteq> None \<longrightarrow> ensure_conversation s w = (None, s, w)))"
proof (intro conjI impI)
  show "get_or_empty (OPENAI_API_KEY_OVERRIDE s) \<noteq> [] \<Longrightarrow>
      get_api_key s w = strip (get_or_empty (OPENAI_API_KEY_OVERRIDE s))"
    by (simp add: get_api_key_def str_or_def)
  show "get_or_empty (OPENAI_API_KEY_OVERRIDE s) = [] \<Longrightarrow>
      get_api_key s w = strip (get_or_empty (env_OPENAI_API_KEY w))"
    by (simp add: get_api_key_def str_or_def)
next
  assume a: "OPENAI_API_KEY_OVERRIDE s = Some v \<and> v \<noteq> [] \<and> (\<forall>c\<in>set v. isspace c)"
  then show k: "get_api_key s w = []"
    by (simp add: get_api_key_def str_or_def get_or_empty_def whitespace_strip)
  show "conversation s = None \<Longrightarrow>
         ensure_conversation s w = (None, s\<lparr>rag_status := ''missing_key''\<rparr>, w)"
    using k by (simp add: ensure_conversation_def)
  show "conversation s \<noteq> None \<Longrightarrow> ensure_conversation s w = (None, s, w)"
    by (simp add: ensure_conversation_def)
qed

text \<open>
  The override of two spaces hides the key of the environment.
\<close>

theorem whitespace_override_hides_env_key_witness:
  "get_api_key (initial_session\<lparr>OPENAI_API_KEY_OVERRIDE := Some (ascii ''  '')\<rparr>) example_world = [] \<and>
   ensure_conversation (initial_session\<lparr>OPENAI_API_KEY_OVERRIDE := Some (ascii ''  '')\<rparr>) example_world =
     (None,
      initial_session\<lparr>OPENAI_API_KEY_OVERRIDE := Some (ascii ''  ''), rag_status := ''missing_key''\<rparr>,
      example_world) \<and>
   env_OPENAI_API_KEY example_world = Some (ascii ''sk-example'') \<and>
   get_api_key initial_session example_world = ascii ''sk-example'' \<and>
   ensure_conversation (ready_session\<lparr>OPENAI_API_KEY_OVERRIDE := Some (ascii ''  '')\<rparr>) example_world =
     (None, ready_session\<lparr>OPENAI_API_KEY_OVERRIDE := Some (ascii ''  '')\<rparr>, example_world)"
  using whitespace_override_hides_env_key[of "initial_session\<lparr>OPENAI_API_KEY_OVERRIDE := Some (ascii ''  '')\<rparr>"
          example_world "ascii ''  ''"]
        whitespace_override_hides_env_key[of initial_session example_world "[]"]
        whitespace_override_hides_env_key[of "ready_session\<lparr>OPENAI_API_KEY_OVERRIDE := Some (ascii ''  '')\<rparr>"
          example_world "ascii ''  ''"]
  by (simp add: initial_session_def ready_session_def example_world_def ascii_def isspace_def
        get_or_empty_def strip_def)

lemma ensure_example:
  "ensure_conversation initial_session example_world =
     (None,
      initial_session\<lparr>conversation :=
          Some (make_chain
                  [\<lparr>page_content = ascii ''Soil bearing capacity'', source = ascii ''soil.pdf'', page = 1\<rparr>]
                  (ascii ''sk-example'')),
        rag_status := ''ready''\<rparr>,
      snd (build_or_load_vectorstore (ascii ''sk-example'') example_world))"
  by (simp add: ex_simps session_simps)

text \<open>
  Claim C9 as stated fails for a session that is ready: after the first run has built
  the chain from the key of the environment, an override of two spaces makes
  \<open>get_api_key\<close> empty, and \<open>ensure_conversation\<close> leaves the status \<open>ready\<close>.
\<close>

theorem whitespace_override_counterexample:
  "rag_status
     (fst (snd (ensure_conversation
        (set_api_key_override (ascii ''  '') (fst (snd (ensure_conversation initial_session example_world))))
        (snd (snd (ensure_conversation initial_session example_world)))))) = ''ready'' \<and>
   get_api_key
     (set_api_key_override (ascii ''  '') (fst (snd (ensure_conversation initial_session example_world))))
     (snd (snd (ensure_conversation initial_session example_world))) = []"
  unfolding ensure_example
  by (simp add: ex_simps session_simps set_api_key_override_def)

lemma build_or_load_no_pdfs:
  assumes "vectorstore w = None"
    and "\<not> (\<exists>f\<in>set (listdir w). isfile w f \<and> endswith (lower f) (ascii ''.pdf''))"
  shows "build_or_load_vectorstore api_key w = (Inr None, record_call Listdir w)"
proof -
  have "fst (list_pdfs_in_cwd w) = []" using assms(2) by (simp add: list_pdfs_empty_iff)
  then have "list_pdfs_in_cwd w = ([], record_call Listdir w)"
    by (simp add: list_pdfs_in_cwd_def)
  then show ?thesis using assms(1) by (simp add: build_or_load_vectorstore_def)
qed

text \<open>
  Claim C8, amended. With no index directory and no PDF file in the listing,
  \<open>build_or_load_vectorstore\<close> returns \<open>None\<close> after reading the listing. When there is
  a credential and the session has no chain, \<open>ensure_conversation\<close> then sets the status
  \<open>no_pdfs\<close>, and a question asked then appends the question and the no-PDFs guidance
  message to the log; the session still has no chain, hence no chain memory, nothing
  else in the session changes, and nothing outside the session is called. A session
  that has a chain is left as it is by \<open>ensure_conversation\<close> and sends the question to
  its chain.
\<close>

theorem empty_pdf_directory_scenario:
  "(vectorstore w = None \<and>
    \<not> (\<exists>f\<in>set (listdir w). isfile w f \<and> endswith (lower f) (ascii ''.pdf'')) \<longrightarrow>
      build_or_load_vectorstore api_key w = (Inr None, record_call Listdir w)) \<and>
   (vectorstore w = None \<and>
    \<not> (\<exists>f\<in>set (listdir w). isfile w f \<and> endswith (lower f) (ascii ''.pdf'')) \<and>
    get_api_key s w \<noteq> [] \<and> conversation s = None \<longrightarrow>
      ensure_conversation s w = (None, s\<lparr>rag_status := ''no_pdfs''\<rparr>, record_call Listdir w) \<and>
      (\<forall>q. strip q \<noteq> [] \<longrightarrow>
         chat_submit True q (s\<lparr>rag_status := ''no_pdfs''\<rparr>) (record_call Listdir w) =
           (True,
            s\<lparr>rag_status := ''no_pdfs'',
              messages := messages s @
                [\<lparr>role = ''user'', content = q\<rparr>,
                 \<lparr>role = ''assistant'', content = MSG_NO_PDFS\<rparr>]\<rparr>,
            record_call Listdir w))) \<and>
   (\<forall>c. conversation s = Some c \<longrightarrow>
      ensure_conversation s w = (None, s, w) \<and>
      (\<forall>q. strip q \<noteq> [] \<longrightarrow>
         snd (snd (chat_submit True q s w)) = record_call (ChainCall q) w))"
proof (intro conjI allI impI)
  assume a: "vectorstore w = None \<and>
    \<not> (\<exists>f\<in>set (listdir w). isfile w f \<and> endswith (lower f) (ascii ''.pdf''))"
  then show "build_or_load_vectorstore api_key w = (Inr None, record_call Listdir w)"
    using build_or_load_no_pdfs by blast
next
  assume a: "vectorstore w = None \<and>
    \<not> (\<exists>f\<in>set (listdir w). isfile w f \<and> endswith (lower f) (ascii ''.pdf'')) \<and>
    get_api_key s w \<noteq> [] \<and> conversation s = None"
  then have b: "build_or_load_vectorstore (get_api_key s w) w = (Inr None, record_call Listdir w)"
    using build_or_load_no_pdfs by blast
  show "ensure_conversation s w = (None, s\<lparr>rag_status := ''no_pdfs''\<rparr>, record_call Listdir w)"
    using a b by (simp add: ensure_conversation_def Let_def)
  fix q assume "strip q \<noteq> []"
  then show "chat_submit True q (s\<lparr>rag_status := ''no_pdfs''\<rparr>) (record_call Listdir w) =
           (True,
            s\<lparr>rag_status := ''no_pdfs'',
              messages := messages s @
                [\<lparr>role = ''user'', content = q\<rparr>,
                 \<lparr>role = ''assistant'', content = MSG_NO_PDFS\<rparr>]\<rparr>,
            record_call Listdir w)"
    using a by (simp add: chat_submit_def Let_def tidy_MSG_NO_PDFS)
next
  fix c assume c: "conversation s = Some c"
  then show "ensure_conversation s w = (None, s, w)"
    by (simp add: ensure_conversation_def)
  fix q assume "strip q \<noteq> []"
  then show "snd (snd (chat_submit True q s w)) = record_call (ChainCall q) w"
    using c by (simp add: chat_submit_def Let_def split: prod.splits)
qed

lemma first_run_eq:
  "first_run =
     (None,
      initial_session\<lparr>conversation :=
          Some (make_chain
                  [\<lparr>page_content = ascii ''Soil bearing capacity'', source = ascii ''soil.pdf'', page = 1\<rparr>]
                  (ascii ''sk-example'')),
        rag_status := ''ready''\<rparr>,
      example_world\<lparr>
        vectorstore :=
          Some \<lparr>index_files =
                  Some [\<lparr>page_content = ascii ''Soil bearing capacity'', source = ascii ''soil.pdf'',
                         page = 1\<rparr>],
                metadata_json = Some \<lparr>built_at = ascii ''2025-01-01T00:00:00'',
                                       pdf_files_written = [ascii ''soil.pdf'']\<rparr>\<rparr>,
        calls :=
          [Listdir, PdfReader (ascii ''soil.pdf''),
           FromDocuments
             [\<lparr>page_content = ascii ''Soil bearing capacity'', source = ascii ''soil.pdf'', page = 1\<rparr>],
           Makedirs, SaveLocal, WriteMetadata]\<rparr>)"
  by (simp add: first_run_def ex_simps session_simps)

lemma rebuilt_without_pdfs_eq:
  "rebuilt_without_pdfs =
     (None,
      initial_session\<lparr>conversation :=
          Some (make_chain
                  [\<lparr>page_content = ascii ''Soil bearing capacity'', source = ascii ''soil.pdf'', page = 1\<rparr>]
                  (ascii ''sk-example'')),
        rag_status := ''ready''\<rparr>,
      example_world\<lparr>
        listdir := [],
        calls :=
          [Listdir, PdfReader (ascii ''soil.pdf''),
           FromDocuments
             [\<lparr>page_content = ascii ''Soil bearing capacity'', source = ascii ''soil.pdf'', page = 1\<rparr>],
           Makedirs, SaveLocal, WriteMetadata, Rmtree, Listdir,
           St_error (ascii ''No PDFs found or failed to build vectorstore.'')]\<rparr>)"
  unfolding rebuilt_without_pdfs_def first_run_eq
  by (simp add: ex_simps session_simps)

text \<open>
  The first run and a question in the example world with an empty working directory;
  and a session that is ready when the PDF files are removed.
\<close>

theorem empty_pdf_directory_scenario_witness:
  "ensure_conversation initial_session (example_world\<lparr>listdir := []\<rparr>) =
     (None, initial_session\<lparr>rag_status := ''no_pdfs''\<rparr>, example_world\<lparr>listdir := [], calls := [Listdir]\<rparr>) \<and>
   chat_submit True (ascii ''What is a shallow foundation?'') (initial_session\<lparr>rag_status := ''no_pdfs''\<rparr>)
       (example_world\<lparr>listdir := [], calls := [Listdir]\<rparr>) =
     (True,
      initial_session\<lparr>rag_status := ''no_pdfs'',
        messages := [\<lparr>role = ''user'', content = ascii ''What is a shallow foundation?''\<rparr>,
                     \<lparr>role = ''assistant'', content = MSG_NO_PDFS\<rparr>]\<rparr>,
      example_world\<lparr>listdir := [], calls := [Listdir]\<rparr>) \<and>
   ensure_conversation ready_session (example_world\<lparr>listdir := []\<rparr>) =
     (None, ready_session, example_world\<lparr>listdir := []\<rparr>) \<and>
   calls (snd (snd (chat_submit True (ascii ''What is a shallow foundation?'') ready_session
                      (example_world\<lparr>listdir := []\<rparr>)))) =
     [ChainCall (ascii ''What is a shallow foundation?'')]"
proof -
  let ?w = "example_world\<lparr>listdir := []\<rparr>"
  let ?q = "ascii ''What is a shallow foundation?''"
  have 1: "vectorstore ?w = None \<and>
           \<not> (\<exists>f\<in>set (listdir ?w). isfile ?w f \<and> endswith (lower f) (ascii ''.pdf'')) \<and>
           get_api_key initial_session ?w \<noteq> [] \<and>
           conversation (initial_session :: document list session) = None"
    by (simp add: session_simps example_world_def ascii_def strip_def isspace_def)
  have r: "record_call Listdir ?w = example_world\<lparr>listdir := [], calls := [Listdir]\<rparr>"
    by (simp add: record_call_def example_world_def)
  note t = empty_pdf_directory_scenario[of ?w "ascii ''sk-example''" initial_session]
  have a: "ensure_conversation initial_session ?w =
             (None, initial_session\<lparr>rag_status := ''no_pdfs''\<rparr>, record_call Listdir ?w)"
    using t 1 by blast
  have b: "chat_submit True ?q (initial_session\<lparr>rag_status := ''no_pdfs''\<rparr>) (record_call Listdir ?w) =
           (True,
            initial_session\<lparr>rag_status := ''no_pdfs'',
              messages := messages (initial_session :: document list session) @
                [\<lparr>role = ''user'', content = ?q\<rparr>,
                 \<lparr>role = ''assistant'', content = MSG_NO_PDFS\<rparr>]\<rparr>,
            record_call Listdir ?w)"
    using t 1 strip_question by blast
  have c0: "conversation ready_session = Some (make_chain [] (ascii ''sk-example''))"
    by (simp add: ready_session_def initial_session_def)
  note u = empty_pdf_directory_scenario[of ?w "ascii ''sk-example''" ready_session]
  have c: "ensure_conversation ready_session ?w = (None, ready_session, ?w)"
    using u c0 by blast
  have d: "snd (snd (chat_submit True ?q ready_session ?w)) = record_call (ChainCall ?q) ?w"
    using u c0 strip_question by blast
  show ?thesis
    using a b c d by (simp add: r initial_session_def record_call_def example_world_def)
qed

text \<open>
  Claim C8 as stated fails in three ways. With an index directory present, an empty
  working directory and a credential give the loaded index, not \<open>None\<close>. Without one,
  the question asked in the \<open>no_pdfs\<close> state is recorded: the log, empty before, holds
  the question and the guidance message. And a session that was ready when the PDF
  files were removed and the index rebuilt has a credential, no PDF file and no index
  directory, but it stays \<open>ready\<close> and answers from its chain.
\<close>

theorem empty_pdf_directory_counterexample:
  "fst (build_or_load_vectorstore (ascii ''sk-example'')
          (example_world\<lparr>listdir := [],
             vectorstore := Some \<lparr>index_files = Some [], metadata_json = None\<rparr>\<rparr>)) = Inr (Some []) \<and>
   messages (fst (snd (chat_submit True (ascii ''What is a shallow foundation?'')
      (fst (snd (ensure_conversation initial_session (example_world\<lparr>listdir := []\<rparr>))))
      (snd (snd (ensure_conversation initial_session (example_world\<lparr>listdir := []\<rparr>))))))) =
     [\<lparr>role = ''user'', content = ascii ''What is a shallow foundation?''\<rparr>,
      \<lparr>role = ''assistant'', content = MSG_NO_PDFS\<rparr>] \<and>
   messages (fst (snd (ensure_conversation initial_session (example_world\<lparr>listdir := []\<rparr>)))) = [] \<and>
   reachable (fst (snd rebuilt_without_pdfs)) (snd (snd rebuilt_without_pdfs)) \<and>
   vectorstore (snd (snd rebuilt_without_pdfs)) = None \<and>
   listdir (snd (snd rebuilt_without_pdfs)) = [] \<and>
   get_api_key (fst (snd rebuilt_without_pdfs)) (snd (snd rebuilt_without_pdfs)) = ascii ''sk-example'' \<and>
   rag_status (fst (snd (ensure_conversation (fst (snd rebuilt_without_pdfs))
                           (snd (snd rebuilt_without_pdfs))))) = ''ready'' \<and>
   messages (fst (snd (chat_submit True (ascii ''What is a shallow foundation?'')
      (fst (snd rebuilt_without_pdfs)) (snd (snd rebuilt_without_pdfs))))) =
     [\<lparr>role = ''user'', content = ascii ''What is a shallow foundation?''\<rparr>,
      \<lparr>role = ''assistant'', content = ascii ''Spread footings.''\<rparr>]"
proof -
  have e: "ensure_conversation initial_session (example_world\<lparr>listdir := []\<rparr>) =
     (None, initial_session\<lparr>rag_status := ''no_pdfs''\<rparr>, example_world\<lparr>listdir := [], calls := [Listdir]\<rparr>)"
    by (simp add: ex_simps session_simps)
  have q: "strip (ascii ''What is a shallow foundation?'') \<noteq> []" by (rule strip_question)
  have 1: "fst (build_or_load_vectorstore (ascii ''sk-example'')
          (example_world\<lparr>listdir := [],
             vectorstore := Some \<lparr>index_files = Some [], metadata_json = None\<rparr>\<rparr>)) = Inr (Some [])"
    by (simp add: ex_simps)
  have 2: "messages (fst (snd (chat_submit True (ascii ''What is a shallow foundation?'')
      (fst (snd (ensure_conversation initial_session (example_world\<lparr>listdir := []\<rparr>))))
      (snd (snd (ensure_conversation initial_session (example_world\<lparr>listdir := []\<rparr>))))))) =
     [\<lparr>role = ''user'', content = ascii ''What is a shallow foundation?''\<rparr>,
      \<lparr>role = ''assistant'', content = MSG_NO_PDFS\<rparr>]"
    unfolding e using q by (simp add: chat_submit_def Let_def tidy_MSG_NO_PDFS initial_session_def)
  have 3: "messages (fst (snd (ensure_conversation initial_session (example_world\<lparr>listdir := []\<rparr>)))) = []"
    unfolding e by (simp add: initial_session_def)
  have r0: "reachable (initial_session :: document list session) example_world"
    by (rule reachable.start)
  have r1: "reachable (fst (snd first_run)) (snd (snd first_run))"
    unfolding first_run_def
    by (rule reachable.ensure[OF r0, of "fst (ensure_conversation initial_session example_world)"]) simp
  have r2: "reachable (fst (snd first_run)) ((snd (snd first_run))\<lparr>listdir := []\<rparr>)"
    using r1 by (rule reachable.outside)
  have 0: "reachable (fst (snd rebuilt_without_pdfs)) (snd (snd rebuilt_without_pdfs))"
    unfolding rebuilt_without_pdfs_def
    by (rule reachable.rebuild[OF r2,
          of "fst (rebuild_knowledge_base (fst (snd first_run)) ((snd (snd first_run))\<lparr>listdir := []\<rparr>))"])
       simp
  have 4: "vectorstore (snd (snd rebuilt_without_pdfs)) = None \<and>
           listdir (snd (snd rebuilt_without_pdfs)) = []"
    unfolding rebuilt_without_pdfs_eq by (simp add: example_world_def)
  have 5: "get_api_key (fst (snd rebuilt_without_pdfs)) (snd (snd rebuilt_without_pdfs)) = ascii ''sk-example''"
    unfolding rebuilt_without_pdfs_eq
    by (simp add: session_simps example_world_def ascii_def strip_def isspace_def)
  have 6: "rag_status (fst (snd (ensure_conversation (fst (snd rebuilt_without_pdfs))
                           (snd (snd rebuilt_without_pdfs))))) = ''ready''"
    unfolding rebuilt_without_pdfs_eq by (simp add: ensure_conversation_def initial_session_def)
  have 7: "messages (fst (snd (chat_submit True (ascii ''What is a shallow foundation?'')
      (fst (snd rebuilt_without_pdfs)) (snd (snd rebuilt_without_pdfs))))) =
     [\<lparr>role = ''user'', content = ascii ''What is a shallow foundation?''\<rparr>,
      \<lparr>role = ''assistant'', content = ascii ''Spread footings.''\<rparr>]"
    unfolding rebuilt_without_pdfs_eq using q tidy_spread_footings
    by (simp add: chat_submit_def Let_def initial_session_def example_world_def)
  from 0 1 2 3 4 5 6 7 show ?thesis by simp
qed












end
